theory Spec2Isabelle
  imports Main "HOL-Library.Multiset"
begin

section \<open>src/types.ts\<close>

text \<open>
  The public result record, the address family enum and the error classes. A thrown error
  (a rejected promise) is the \<open>Inl\<close> branch of a sum; \<open>SpawnerError\<close> stands for whatever
  the runtime's spawner rejects with.
\<close>

text \<open>
  A value of type \<^verbatim>\<open>number\<close> that the program computes or hands on: NaN, the two
  infinities, or a double with an integral value (minus zero prints like zero and is not
  kept apart).
\<close>

datatype js_number = NaN | PosInfinity | NegInfinity | Num int

record NetworkDefaultGateway =
  ip :: string
  gateway :: string
  interface :: string
  prefixLength :: js_number

datatype AddressFamily = IPv4 | IPv6

datatype error =
    DefaultGatewayNotAvailableError
  | RuntimeNotSupportedError
  | DefaultInterfaceNotFoundError
  | NoAvailableNetworkError
  | PlatformNotSupportedError
  | JSONParsingSpawnerOutputError
  | DeviceIpNotFoundError
  | NetmaskNotFoundError
  | PrefixLengthNotFoundError
  | PrefixLengthNotValidError
  | SpawnerError

text \<open>
  \<^verbatim>\<open>type Spawner = (cmds: string[], processInput?: string) => Promise<string>\<close>.
  The host is taken to be in one state during a resolution call, so the spawner is a function
  of its arguments.
\<close>

type_synonym Spawner = "string list \<Rightarrow> string option \<Rightarrow> error + string"

fun UnixAddressFamily :: "AddressFamily \<Rightarrow> string" where
  "UnixAddressFamily IPv4 = ''inet''"
| "UnixAddressFamily IPv6 = ''inet6''"

section \<open>The runtime's JSON.parse\<close>

text \<open>
  \<^verbatim>\<open>JSON.parse\<close> belongs to the JavaScript runtime. Its grammar is the parameter \<open>decode\<close>
  (\<open>None\<close> when it throws SyntaxError), read at the type the caller casts the result to. One
  fact of the language is fixed here: the empty text is not a JSON text, so
  \<^verbatim>\<open>JSON.parse('')\<close> throws.
\<close>

definition JSON_parse :: "(string \<Rightarrow> 'a option) \<Rightarrow> string \<Rightarrow> 'a option" where
  "JSON_parse decode text = (if text = [] then None else decode text)"

text \<open>
  \<^verbatim>\<open>Promise.all\<close>: every promise must resolve; the values keep the order of the promises.
  A rejection rejects the whole; the model reports the first one in list order.
\<close>

fun promise_all :: "(error + 'a) list \<Rightarrow> error + 'a list" where
  "promise_all [] = Inr []"
| "promise_all (p # ps) =
     (case p of
        Inl e \<Rightarrow> Inl e
      | Inr v \<Rightarrow> (case promise_all ps of Inl e \<Rightarrow> Inl e | Inr vs \<Rightarrow> Inr (v # vs)))"

section \<open>JavaScript built-ins used by the macOS parser\<close>

text \<open>
  Strings are byte strings: the command output is ASCII. \<open>is_space\<close> is the ASCII part of the
  white space that \<^verbatim>\<open>\s\<close> matches and that \<^verbatim>\<open>parseInt\<close> skips (TAB, LF, VT, FF, CR, SP).
\<close>

definition is_space :: "char \<Rightarrow> bool" where
  "is_space c = (c = CHR 0x09 \<or> c = CHR 0x0A \<or> c = CHR 0x0B \<or> c = CHR 0x0C \<or> c = CHR 0x0D \<or> c = CHR '' '')"

text \<open>
  \<^verbatim>\<open>input.split(/\s+/)\<close>: the pieces between the maximal runs of white space. A run at the
  start or at the end leaves an empty piece there, and the empty string splits into one
  empty piece.
\<close>

function split_ws :: "string \<Rightarrow> string list" where
  "split_ws s =
     (let piece = takeWhile (\<lambda>c. \<not> is_space c) s;
          rest = dropWhile (\<lambda>c. \<not> is_space c) s
      in if rest = [] then [piece] else piece # split_ws (dropWhile is_space rest))"
  by pat_completeness auto
termination
proof (relation "measure length")
  show "wf (measure length)" by simp
next
  fix s :: string and piece rest
  assume r: "rest = dropWhile (\<lambda>c. \<not> is_space c) s" and ne: "rest \<noteq> []"
  have "is_space (hd rest)" using r ne hd_dropWhile [of "\<lambda>c. \<not> is_space c" s] by auto
  then have "dropWhile is_space rest = dropWhile is_space (tl rest)"
    using ne by (cases rest) auto
  moreover have "length (dropWhile is_space (tl rest)) \<le> length (tl rest)"
    by (rule length_dropWhile_le)
  ultimately have "length (dropWhile is_space rest) \<le> length (tl rest)"
    by simp
  also have "\<dots> < length rest" using ne by (cases rest) auto
  also have "\<dots> \<le> length s" using r by (simp add: length_dropWhile_le)
  finally show "(dropWhile is_space rest, s) \<in> measure length" by simp
qed

declare split_ws.simps [simp del]

text \<open>\<^verbatim>\<open>parts.indexOf(key)\<close>: the first index holding the key, or -1.\<close>

fun indexOf :: "'a list \<Rightarrow> 'a \<Rightarrow> int" where
  "indexOf [] key = - 1"
| "indexOf (p # ps) key =
     (if p = key then 0 else (let i = indexOf ps key in if i = - 1 then - 1 else i + 1))"

fun bit_length :: "nat \<Rightarrow> nat" where
  "bit_length n = (if n = 0 then 0 else Suc (bit_length (n div 2)))"

declare bit_length.simps [simp del]

text \<open>
  The Number value of a non-negative mathematical integer: the nearest double, ties to the
  even significand (53 bits); \<open>None\<close> is +Infinity, reached when the rounded value is
  \<open>2 ^ 1024\<close> or more.
\<close>

definition NumberValue :: "nat \<Rightarrow> nat option" where
  "NumberValue n =
     (let e = bit_length n
      in if e \<le> 53 then Some n
         else
           (let shift = e - 53;
                q = n div 2 ^ shift;
                r = n mod 2 ^ shift;
                half = 2 ^ (shift - 1);
                q' = (if half < r \<or> (r = half \<and> odd q) then q + 1 else q);
                v = q' * 2 ^ shift
            in if 2 ^ 1024 \<le> v then None else Some v))"

definition hexDigitValue :: "char \<Rightarrow> nat option" where
  "hexDigitValue c =
     (let k = (of_char c :: nat)
      in if 48 \<le> k \<and> k \<le> 57 then Some (k - 48)
         else if 65 \<le> k \<and> k \<le> 70 then Some (k - 55)
         else if 97 \<le> k \<and> k \<le> 102 then Some (k - 87)
         else None)"

definition isHexDigit :: "char \<Rightarrow> bool" where
  "isHexDigit c = (hexDigitValue c \<noteq> None)"

text \<open>The mathematical integer that a run of hexadecimal digits denotes.\<close>

definition hexValue :: "string \<Rightarrow> nat" where
  "hexValue Z = foldl (\<lambda>acc c. 16 * acc + (case hexDigitValue c of Some d \<Rightarrow> d | None \<Rightarrow> 0)) 0 Z"

text \<open>
  \<^verbatim>\<open>parseInt(string, 16)\<close> (ECMA-262, parseInt): skip leading white space, take a sign, drop
  one \<^verbatim>\<open>0x\<close> or \<^verbatim>\<open>0X\<close>, read the longest run of hexadecimal digits; no digit gives NaN,
  otherwise the Number value of the signed integer.
\<close>

definition parseInt16 :: "string \<Rightarrow> js_number" where
  "parseInt16 inputString =
     (let S = dropWhile is_space inputString;
          negative = (take 1 S = ''-'');
          S1 = (if take 1 S = ''+'' \<or> take 1 S = ''-'' then drop 1 S else S);
          S2 = (if take 2 S1 = ''0x'' \<or> take 2 S1 = ''0X'' then drop 2 S1 else S1);
          Z = takeWhile isHexDigit S2
      in if Z = [] then NaN
         else
           (case NumberValue (hexValue Z) of
              None \<Rightarrow> if negative then NegInfinity else PosInfinity
            | Some v \<Rightarrow> Num (if negative then - int v else int v)))"

text \<open>\<^verbatim>\<open>Number.prototype.toString(2)\<close> on those numbers.\<close>

fun binary_digits :: "nat \<Rightarrow> string" where
  "binary_digits n =
     (if n < 2 then [if n = 0 then CHR ''0'' else CHR ''1'']
      else binary_digits (n div 2) @ [if even n then CHR ''0'' else CHR ''1''])"

declare binary_digits.simps [simp del]

fun number_toString2 :: "js_number \<Rightarrow> string" where
  "number_toString2 NaN = ''NaN''"
| "number_toString2 PosInfinity = ''Infinity''"
| "number_toString2 NegInfinity = ''-Infinity''"
| "number_toString2 (Num i) =
     (if i < 0 then CHR ''-'' # binary_digits (nat (- i)) else binary_digits (nat i))"

text \<open>\<^verbatim>\<open>binary.split('')\<close>: one string per character.\<close>

definition split_chars :: "string \<Rightarrow> string list" where
  "split_chars s = map (\<lambda>c. [c]) s"

section \<open>src/platforms/macos/macos-utils.ts\<close>

record DarwinInterface =
  inet :: string
  prefixlen :: js_number

definition DarwinInterfaceStatus_Active :: string where
  "DarwinInterfaceStatus_Active = ''active''"

definition defaultRouteCommand :: "AddressFamily \<Rightarrow> string list" where
  "defaultRouteCommand addressFamily =
     (let address = (if addressFamily = IPv4 then ''-inet'' else ''-inet6'')
      in [''route'', ''-n'', ''get'', address, ''default''])"

definition interfaceDetailsCommand :: "string \<Rightarrow> string list" where
  "interfaceDetailsCommand iface = [''ifconfig'', iface]"

definition grepCommand :: "string \<Rightarrow> string list" where
  "grepCommand v = [''grep'', v]"

definition valueFromRowKey :: "Spawner \<Rightarrow> string \<Rightarrow> string \<Rightarrow> error + string" where
  "valueFromRowKey spawner input key =
     (case spawner (grepCommand key) (Some input) of
        Inl e \<Rightarrow> Inl e
      | Inr output \<Rightarrow> spawner [''awk'', ''{print $2}''] (Some output))"

definition valueFromKey :: "string \<Rightarrow> string \<Rightarrow> string option" where
  "valueFromKey input key =
     (let parts = split_ws input;
          index = indexOf parts key
      in if index \<noteq> - 1 \<and> index + 1 < int (length parts)
         then Some (parts ! nat (index + 1))
         else None)"

definition netmaskToPrefixLength :: "string \<Rightarrow> error + int" where
  "netmaskToPrefixLength netmask =
     (let binary = number_toString2 (parseInt16 netmask);
          prefixLength = int (length (filter (\<lambda>bit. bit = ''1'') (split_chars binary)))
      in if prefixLength > 32 then Inl PrefixLengthNotValidError else Inr prefixLength)"

text \<open>
  \<open>toNumber\<close> is the runtime's conversion behind the unary plus of \<^verbatim>\<open>+v6Prefixlen\<close>, a
  parameter of the model: whatever number it gives, NaN included, becomes the prefix length.
  The bit count of \<open>netmaskToPrefixLength\<close> is an integer and enters as \<open>Num\<close>.
  \<^verbatim>\<open>!inet\<close> holds for null and for the empty string.
\<close>

definition prefixLengthAndIpByAddressFamily ::
  "Spawner \<Rightarrow> (string \<Rightarrow> js_number) \<Rightarrow> string \<Rightarrow> AddressFamily \<Rightarrow> error + DarwinInterface" where
  "prefixLengthAndIpByAddressFamily spawner toNumber outputInterface addressFamily =
     (case valueFromRowKey spawner outputInterface ''status'' of
        Inl e \<Rightarrow> Inl e
      | Inr status \<Rightarrow>
          if status \<noteq> DarwinInterfaceStatus_Active then Inl DefaultInterfaceNotFoundError
          else
            (let grepAddressFamily = (if addressFamily = IPv4 then ''inet '' else ''inet6'')
             in case spawner (grepCommand grepAddressFamily) (Some outputInterface) of
                  Inl e \<Rightarrow> Inl e
                | Inr outputIPv \<Rightarrow>
                    (case valueFromKey outputIPv (UnixAddressFamily addressFamily) of
                       None \<Rightarrow> Inl DeviceIpNotFoundError
                     | Some inet' \<Rightarrow>
                         if inet' = [] then Inl DeviceIpNotFoundError
                         else if addressFamily = IPv4 then
                           (case valueFromKey outputIPv ''netmask'' of
                              None \<Rightarrow> Inl NetmaskNotFoundError
                            | Some netmask \<Rightarrow>
                                if netmask = [] then Inl NetmaskNotFoundError
                                else
                                  (case netmaskToPrefixLength netmask of
                                     Inl e \<Rightarrow> Inl e
                                   | Inr prefixlen' \<Rightarrow> Inr \<lparr>inet = inet', prefixlen = Num prefixlen'\<rparr>))
                         else
                           (case valueFromKey outputIPv ''prefixlen'' of
                              None \<Rightarrow> Inl PrefixLengthNotFoundError
                            | Some v6Prefixlen \<Rightarrow>
                                if v6Prefixlen = [] then Inl PrefixLengthNotFoundError
                                else Inr \<lparr>inet = inet', prefixlen = toNumber v6Prefixlen\<rparr>))))"

section \<open>src/platforms/macos/macos-platform.ts\<close>

definition MacOSPlatform_defaultGateway ::
  "Spawner \<Rightarrow> (string \<Rightarrow> js_number) \<Rightarrow> AddressFamily \<Rightarrow> error + NetworkDefaultGateway" where
  "MacOSPlatform_defaultGateway spawner toNumber addressFamily =
     (case spawner (defaultRouteCommand addressFamily) None of
        Inl e \<Rightarrow> Inl e
      | Inr outputDefaultRoute \<Rightarrow>
          if outputDefaultRoute = [] then Inl DefaultGatewayNotAvailableError
          else
            (case valueFromRowKey spawner outputDefaultRoute ''gateway'' of
               Inl e \<Rightarrow> Inl e
             | Inr gateway' \<Rightarrow>
                 (case valueFromRowKey spawner outputDefaultRoute ''interface'' of
                    Inl e \<Rightarrow> Inl e
                  | Inr defaultInterface \<Rightarrow>
                      (case spawner (interfaceDetailsCommand defaultInterface) None of
                         Inl e \<Rightarrow> Inl e
                       | Inr outputInterface \<Rightarrow>
                           (case prefixLengthAndIpByAddressFamily spawner toNumber
                                   outputInterface addressFamily of
                              Inl e \<Rightarrow> Inl e
                            | Inr d \<Rightarrow>
                                Inr \<lparr>ip = inet d,
                                     gateway = gateway',
                                     interface = defaultInterface,
                                     prefixLength = prefixlen d\<rparr>)))))"

section \<open>src/platforms/linux/linux-utils.ts\<close>

text \<open>
  The records are what \<^verbatim>\<open>JSON.parse\<close> hands over, cast to the declared types without a
  check. \<^verbatim>\<open>ip -j route\<close> prints \<open>protocol\<close> and \<open>metric\<close> only for a route that has them, so
  both are optional here: \<open>None\<close> is an object without the key, whose property reads as
  undefined. A metric that is present is an integer. \<open>prefixlen\<close> is only copied into the
  result.
\<close>

record IpRoute =
  dst :: string
  gateway :: string
  dev :: string
  protocol :: "string option"
  metric :: "int option"

record IpAddrInfo =
  family :: string
  local :: string
  prefixlen :: js_number

record IpAddr =
  ifname :: string
  operstate :: string
  addr_info :: "IpAddrInfo list"

text \<open>\<^verbatim>\<open>type LinuxInterface = IpRoute & Omit<IpAddr, 'addr_info'> & IpAddrInfo\<close>\<close>

record LinuxInterface = IpRoute +
  ifname :: string
  operstate :: string
  family :: string
  local :: string
  prefixlen :: js_number

definition LinuxOperstate_Up :: string where
  "LinuxOperstate_Up = ''UP''"

definition ipDefaultRouteCommand :: "AddressFamily \<Rightarrow> string list" where
  "ipDefaultRouteCommand addressFamily =
     (let address = (if addressFamily = IPv4 then ''-4'' else ''-6'')
      in [''ip'', address, ''-j'', ''route'', ''show'', ''default''])"

definition ipInterfaceDetailsCommand :: "string \<Rightarrow> string list" where
  "ipInterfaceDetailsCommand iface = [''ip'', ''-j'', ''addr'', ''show'', iface]"

definition linux_spawnCommandAndParse ::
  "Spawner \<Rightarrow> (string \<Rightarrow> 'a list option) \<Rightarrow> string list \<Rightarrow> error + 'a list" where
  "linux_spawnCommandAndParse spawner decode cmds =
     (case spawner cmds None of
        Inl e \<Rightarrow> Inl e
      | Inr rawOutput \<Rightarrow>
          (case JSON_parse decode rawOutput of
             None \<Rightarrow> Inl JSONParsingSpawnerOutputError
           | Some parsed \<Rightarrow> Inr parsed))"

definition mergeRoutesWithAddresseses :: "IpRoute list \<Rightarrow> IpAddr list \<Rightarrow> LinuxInterface list" where
  "mergeRoutesWithAddresseses ipRoutes ipAddrs =
     concat (map (\<lambda>ipRoute.
       concat (map (\<lambda>ipAddrComplete.
         map (\<lambda>ipAddrInfo.
           \<lparr>dst = dst ipRoute, gateway = IpRoute.gateway ipRoute, dev = dev ipRoute,
            protocol = protocol ipRoute, metric = metric ipRoute,
            ifname = IpAddr.ifname ipAddrComplete, operstate = IpAddr.operstate ipAddrComplete,
            family = IpAddrInfo.family ipAddrInfo, local = IpAddrInfo.local ipAddrInfo,
            prefixlen = IpAddrInfo.prefixlen ipAddrInfo\<rparr>)
           (addr_info ipAddrComplete))
         (filter (\<lambda>ipAddr. IpAddr.ifname ipAddr = dev ipRoute) ipAddrs)))
       ipRoutes)"

text \<open>
  \<^verbatim>\<open>prev.metric < curr.metric\<close>: two numbers compare as numbers; undefined converts to NaN,
  and every comparison with NaN is false.
\<close>

definition js_less :: "int option \<Rightarrow> int option \<Rightarrow> bool" where
  "js_less a b =
     (case a of
        None \<Rightarrow> False
      | Some x \<Rightarrow> (case b of None \<Rightarrow> False | Some y \<Rightarrow> x < y))"

text \<open>
  \<^verbatim>\<open>filteredInterfaces.reduce((prev, curr) => (prev.metric < curr.metric ? prev : curr))\<close>:
  a reduce with no initial value starts from the first element and folds the rest from the
  left; the empty array is excluded by the length check before it.
\<close>

definition linux_defaultInterfaceByAddressFamily ::
  "LinuxInterface list \<Rightarrow> AddressFamily \<Rightarrow> error + LinuxInterface" where
  "linux_defaultInterfaceByAddressFamily interfaces addressFamily =
     (let filteredInterfaces =
            filter (\<lambda>int. operstate int = LinuxOperstate_Up)
              (filter (\<lambda>int. family int = UnixAddressFamily addressFamily) interfaces)
      in case filteredInterfaces of
           [] \<Rightarrow> Inl DefaultInterfaceNotFoundError
         | first # rest \<Rightarrow>
             Inr (foldl (\<lambda>prev curr. if js_less (metric prev) (metric curr) then prev else curr)
                    first rest))"

section \<open>src/platforms/linux/linux-platform.ts\<close>

definition LinuxPlatform_defaultGateway ::
  "Spawner \<Rightarrow> (string \<Rightarrow> IpRoute list option) \<Rightarrow> (string \<Rightarrow> IpAddr list option) \<Rightarrow>
   AddressFamily \<Rightarrow> error + NetworkDefaultGateway" where
  "LinuxPlatform_defaultGateway spawner decodeRoutes decodeAddrs addressFamily =
     (case linux_spawnCommandAndParse spawner decodeRoutes (ipDefaultRouteCommand addressFamily) of
        Inl e \<Rightarrow> Inl e
      | Inr ipRoutes \<Rightarrow>
          if length ipRoutes = 0 then Inl DefaultGatewayNotAvailableError
          else
            (case promise_all
                    (map (\<lambda>r. linux_spawnCommandAndParse spawner decodeAddrs
                                 (ipInterfaceDetailsCommand (dev r))) ipRoutes) of
               Inl e \<Rightarrow> Inl e
             | Inr outputs \<Rightarrow>
                 (let ipAddresses = concat outputs;
                      interfaces = mergeRoutesWithAddresseses ipRoutes ipAddresses
                  in case linux_defaultInterfaceByAddressFamily interfaces addressFamily of
                       Inl e \<Rightarrow> Inl e
                     | Inr defaultInterface \<Rightarrow>
                         Inr \<lparr>ip = local defaultInterface,
                              gateway = IpRoute.gateway defaultInterface,
                              interface = ifname defaultInterface,
                              prefixLength = prefixlen defaultInterface\<rparr>)))"

section \<open>src/platforms/windows/windows-utils.ts\<close>

text \<open>
  \<^verbatim>\<open>ids.join(',')\<close> renders each number with the runtime's number-to-string conversion
  (decimal for the integers PowerShell prints) and puts the separator between the elements.
\<close>

fun digits10 :: "nat \<Rightarrow> string" where
  "digits10 n =
     (if n < 10 then [char_of (48 + n)]
      else digits10 (n div 10) @ [char_of (48 + n mod 10)])"

declare digits10.simps [simp del]

definition number_toString :: "int \<Rightarrow> string" where
  "number_toString i = (if i < 0 then CHR ''-'' # digits10 (nat (- i)) else digits10 (nat i))"

fun join :: "string \<Rightarrow> string list \<Rightarrow> string" where
  "join sep [] = []"
| "join sep [x] = x"
| "join sep (x # y # ys) = x @ sep @ join sep (y # ys)"

record NetRoute =
  ifIndex :: int
  NextHop :: string
  InterfaceMetric :: int

record NetIpAddress =
  ifIndex :: int
  IPAddress :: string
  InterfaceAlias :: string
  AddressFamily :: int
  PrefixLength :: js_number
  AddressState :: int

text \<open>
  \<^verbatim>\<open>type WindowsInterface = NetRoute & NetIpAddress\<close>. \<^verbatim>\<open>Select-Object -Property\<close> prints every
  selected property, and \<open>InterfaceMetric\<close> is an unsigned integer of the route object, so the
  metric is always there. \<open>PrefixLength\<close> is only copied into the result.
\<close>

record WindowsInterface = NetRoute +
  IPAddress :: string
  InterfaceAlias :: string
  AddressFamily :: int
  PrefixLength :: js_number
  AddressState :: int

fun WindowsAddressFamily :: "AddressFamily \<Rightarrow> int" where
  "WindowsAddressFamily IPv4 = 2"
| "WindowsAddressFamily IPv6 = 23"

definition WindowsAddressState_Preferred :: int where
  "WindowsAddressState_Preferred = 4"

definition netRouteCommand :: "AddressFamily \<Rightarrow> string list" where
  \<open>netRouteCommand addressFamily =
     (let destinationPrefix = (if addressFamily = IPv4 then ''0.0.0.0/0'' else ''::/0'')
      in [''powershell'',
          ''Get-NetRoute | Where-Object { $_.DestinationPrefix -eq "'' @ destinationPrefix @
          ''" } | Select-Object -Property ifIndex, NextHop, InterfaceMetric | ConvertTo-Json''])\<close>

definition netIpAddressCommand :: "int list \<Rightarrow> string list" where
  \<open>netIpAddressCommand ids =
     [''powershell'',
      ''Get-NetIPAddress | Where-Object { @('' @ join '','' (map number_toString ids) @
      '') -contains $_.InterfaceIndex } | Select-Object -Property ifIndex, IPAddress, InterfaceAlias, AddressFamily, PrefixLength, AddressState | ConvertTo-Json'']\<close>

text \<open>
  \<^verbatim>\<open>const output: T | T[] = JSON.parse(rawOutput)\<close>: PowerShell prints one object bare and
  several as an array, so the decoder's result says which it is.
\<close>

datatype 'a json_output = JObject 'a | JArray "'a list"

definition windows_spawnCommandAndParse ::
  "Spawner \<Rightarrow> (string \<Rightarrow> 'a json_output option) \<Rightarrow> string list \<Rightarrow> error + 'a list" where
  "windows_spawnCommandAndParse spawner decode cmds =
     (case spawner cmds None of
        Inl e \<Rightarrow> Inl e
      | Inr rawOutput \<Rightarrow>
          if rawOutput = [] then Inl DefaultGatewayNotAvailableError
          else
            (case JSON_parse decode rawOutput of
               None \<Rightarrow> Inl JSONParsingSpawnerOutputError
             | Some (JArray output) \<Rightarrow> Inr output
             | Some (JObject output) \<Rightarrow> Inr [output]))"

definition windows_defaultInterfaceByAddressFamily ::
  "WindowsInterface list \<Rightarrow> AddressFamily \<Rightarrow> error + WindowsInterface" where
  "windows_defaultInterfaceByAddressFamily interfaces addressFamily =
     (let familyInterfaces =
            filter (\<lambda>int. AddressFamily int = WindowsAddressFamily addressFamily) interfaces
      in if length familyInterfaces = 0 then Inl DefaultInterfaceNotFoundError
         else
           (let activeInterfaces =
                  filter (\<lambda>int. AddressState int = WindowsAddressState_Preferred) familyInterfaces
            in case activeInterfaces of
                 [] \<Rightarrow> Inl NoAvailableNetworkError
               | first # rest \<Rightarrow>
                   Inr (foldl (\<lambda>prev curr.
                                 if InterfaceMetric prev < InterfaceMetric curr then prev else curr)
                          first rest)))"

section \<open>src/platforms/windows/windows-platform.ts\<close>

definition WindowsPlatform_defaultGateway ::
  "Spawner \<Rightarrow> (string \<Rightarrow> NetRoute json_output option) \<Rightarrow>
   (string \<Rightarrow> NetIpAddress json_output option) \<Rightarrow>
   AddressFamily \<Rightarrow> error + NetworkDefaultGateway" where
  "WindowsPlatform_defaultGateway spawner decodeRoutes decodeAddrs addressFamily =
     (case windows_spawnCommandAndParse spawner decodeRoutes (netRouteCommand addressFamily) of
        Inl e \<Rightarrow> Inl e
      | Inr netRoutes \<Rightarrow>
          (let ids = map NetRoute.ifIndex netRoutes
           in case windows_spawnCommandAndParse spawner decodeAddrs (netIpAddressCommand ids) of
                Inl e \<Rightarrow> Inl e
              | Inr netIpAddresses \<Rightarrow>
                  (let interfaces =
                         concat (map (\<lambda>route.
                           map (\<lambda>address.
                                 \<lparr>NetRoute.ifIndex = NetIpAddress.ifIndex address,
                                  NextHop = NextHop route,
                                  InterfaceMetric = InterfaceMetric route,
                                  IPAddress = NetIpAddress.IPAddress address,
                                  InterfaceAlias = NetIpAddress.InterfaceAlias address,
                                  AddressFamily = NetIpAddress.AddressFamily address,
                                  PrefixLength = NetIpAddress.PrefixLength address,
                                  AddressState = NetIpAddress.AddressState address\<rparr>)
                             (filter (\<lambda>address. NetIpAddress.ifIndex address = NetRoute.ifIndex route)
                                netIpAddresses))
                           netRoutes)
                   in case windows_defaultInterfaceByAddressFamily interfaces addressFamily of
                        Inl e \<Rightarrow> Inl e
                      | Inr defaultInterface \<Rightarrow>
                          Inr \<lparr>ip = IPAddress defaultInterface,
                               gateway = NextHop defaultInterface,
                               interface = InterfaceAlias defaultInterface,
                               prefixLength = PrefixLength defaultInterface\<rparr>)))"

section \<open>The spec's bit count\<close>

text \<open>
  The number of set bits of a natural number, as the spec counts them for a netmask; the
  code counts the characters \<open>1\<close> of a binary rendering instead.
\<close>

fun popcount :: "nat \<Rightarrow> nat" where
  "popcount n = (if n = 0 then 0 else n mod 2 + popcount (n div 2))"

declare popcount.simps [simp del]

section \<open>Synthetic fixtures in place of real command output\<close>

text \<open>
  A scripted spawner answers the listed command lines (each with its standard input) with
  the listed output and rejects every other one; a scripted decoder knows the listed texts.
\<close>

definition scripted_spawner :: "((string list \<times> string option) \<times> string) list \<Rightarrow> Spawner" where
  "scripted_spawner script cmds processInput =
     (case map_of script (cmds, processInput) of
        None \<Rightarrow> Inl SpawnerError
      | Some output \<Rightarrow> Inr output)"

definition scripted_decode :: "(string \<times> 'a) list \<Rightarrow> string \<Rightarrow> 'a option" where
  "scripted_decode table text = map_of table text"

definition route_json :: string where
  \<open>route_json = ''[{"dst":"default","gateway":"192.168.1.1","dev":"eth0","metric":100}]''\<close>

definition addr_json :: string where
  \<open>addr_json = ''[{"ifname":"eth0","operstate":"UP","addr_info":[{"family":"inet","local":"192.168.1.15","prefixlen":24}]}]''\<close>






text \<open>
  The trimmed output of \<^verbatim>\<open>route -n get default\<close> and of \<^verbatim>\<open>ifconfig en0\<close>: lines separated by a
  line feed, the \<^verbatim>\<open>ifconfig\<close> rows indented by a tab.
\<close>

definition macos_route_output :: string where
  "macos_route_output =
     join [CHR 0x0A]
       [''route to: default'',
        ''destination: default'',
        ''       mask: default'',
        ''    gateway: 192.168.1.1'',
        ''  interface: en0'']"

definition macos_route6_output :: string where
  "macos_route6_output =
     join [CHR 0x0A]
       [''route to: default'',
        ''destination: default'',
        ''       mask: default'',
        ''    gateway: fe80::1%en0'',
        ''  interface: en0'']"

definition macos_ifconfig_output :: string where
  "macos_ifconfig_output =
     join [CHR 0x0A, CHR 0x09]
       [''en0: flags=8863<UP,BROADCAST,SMART,RUNNING,SIMPLEX,MULTICAST> mtu 1500'',
        ''ether a4:83:e7:00:00:01'',
        ''inet6 fe80::1c2d%en0 prefixlen 64 scopeid 0x4'',
        ''inet 192.168.1.15 netmask 0xffffff00 broadcast 192.168.1.255'',
        ''status: active'']"

text \<open>
  What \<^verbatim>\<open>route\<close>, \<^verbatim>\<open>ifconfig\<close>, \<^verbatim>\<open>grep\<close> and \<^verbatim>\<open>awk\<close> answer on a host with one active interface:
  \<^verbatim>\<open>grep\<close> prints the one matching line, \<^verbatim>\<open>awk\<close> its second field, and the spawner trims both.
\<close>

definition macos_script :: "((string list \<times> string option) \<times> string) list" where
  "macos_script =
     [(([''route'', ''-n'', ''get'', ''-inet'', ''default''], None), macos_route_output),
      (([''route'', ''-n'', ''get'', ''-inet6'', ''default''], None), macos_route6_output),
      (([''grep'', ''gateway''], Some macos_route_output), ''gateway: 192.168.1.1''),
      (([''grep'', ''gateway''], Some macos_route6_output), ''gateway: fe80::1%en0''),
      (([''awk'', ''{print $2}''], Some ''gateway: 192.168.1.1''), ''192.168.1.1''),
      (([''awk'', ''{print $2}''], Some ''gateway: fe80::1%en0''), ''fe80::1%en0''),
      (([''grep'', ''interface''], Some macos_route_output), ''interface: en0''),
      (([''grep'', ''interface''], Some macos_route6_output), ''interface: en0''),
      (([''awk'', ''{print $2}''], Some ''interface: en0''), ''en0''),
      (([''ifconfig'', ''en0''], None), macos_ifconfig_output),
      (([''grep'', ''status''], Some macos_ifconfig_output), ''status: active''),
      (([''awk'', ''{print $2}''], Some ''status: active''), ''active''),
      (([''grep'', ''inet ''], Some macos_ifconfig_output),
         ''inet 192.168.1.15 netmask 0xffffff00 broadcast 192.168.1.255''),
      (([''grep'', ''inet6''], Some macos_ifconfig_output),
         ''inet6 fe80::1c2d%en0 prefixlen 64 scopeid 0x4'')]"


text \<open>The unary plus on a string of decimal digits.\<close>

definition decimal_toNumber :: "string \<Rightarrow> js_number" where
  "decimal_toNumber token = Num (foldl (\<lambda>acc c. 10 * acc + (int (of_char c) - 48)) 0 token)"

section \<open>The reduce that keeps the lower candidate\<close>

text \<open>
  The fold of both selectors, for any comparison \<open>lt\<close>: the result is an element of the list
  and everything after it compares strictly higher. When \<open>lt\<close> is the order of an integer
  metric \<open>m\<close> on the elements of the list, nothing in the list is lower than the result.
\<close>

lemma js_less_simps [simp]:
  "js_less (Some v) (Some w) = (v < w)"
  "js_less None b = False"
  "js_less a None = False"
  by (simp_all add: js_less_def split: option.split)

lemma foldl_keep_split:
  "\<exists>pre post. x # xs = pre @ foldl (\<lambda>prev curr. if lt prev curr then prev else curr) x xs # post
           \<and> (\<forall>y\<in>set post. lt (foldl (\<lambda>prev curr. if lt prev curr then prev else curr) x xs) y)"
proof (induction xs rule: rev_induct)
  case Nil
  have "x # [] = [] @ x # [] \<and> (\<forall>y\<in>set []. lt x y)" by simp
  then show ?case unfolding foldl_Nil by (intro exI)
next
  case (snoc z zs)
  let ?f = "\<lambda>prev curr. if lt prev curr then prev else curr"
  let ?r = "foldl ?f x zs"
  from snoc obtain pre post where
    dec: "x # zs = pre @ ?r # post" and
    post: "\<forall>y\<in>set post. lt ?r y" by blast
  show ?case
  proof (cases "lt ?r z")
    case True
    then have res: "foldl ?f x (zs @ [z]) = ?r" by simp
    have "x # zs @ [z] = pre @ ?r # (post @ [z])" using dec by simp
    moreover have "\<forall>y\<in>set (post @ [z]). lt ?r y" using post True by simp
    ultimately have "x # zs @ [z] = pre @ ?r # (post @ [z])
        \<and> (\<forall>y\<in>set (post @ [z]). lt ?r y)" by simp
    then show ?thesis unfolding res by (intro exI)
  next
    case False
    then have res: "foldl ?f x (zs @ [z]) = z" by simp
    have "x # zs @ [z] = (x # zs) @ z # [] \<and> (\<forall>y\<in>set []. lt z y)" by simp
    then show ?thesis unfolding res by (intro exI)
  qed
qed

lemma foldl_keep_mem:
  "foldl (\<lambda>prev curr. if lt prev curr then prev else curr) x xs \<in> set (x # xs)"
proof -
  from foldl_keep_split [of x xs lt] obtain pre post where
    dec: "x # xs = pre @ foldl (\<lambda>prev curr. if lt prev curr then prev else curr) x xs # post"
    by blast
  show ?thesis unfolding dec by simp
qed

lemma foldl_keep_least:
  fixes m :: "'a \<Rightarrow> int"
  assumes "\<And>a b. a \<in> set (x # xs) \<Longrightarrow> b \<in> set (x # xs) \<Longrightarrow> lt a b = (m a < m b)"
    and "y \<in> set (x # xs)"
  shows "m (foldl (\<lambda>prev curr. if lt prev curr then prev else curr) x xs) \<le> m y"
  using assms
proof (induction xs arbitrary: y rule: rev_induct)
  case Nil
  then show ?case by simp
next
  case (snoc z zs)
  let ?f = "\<lambda>prev curr. if lt prev curr then prev else curr"
  let ?r = "foldl ?f x zs"
  have sub: "lt a b = (m a < m b)" if "a \<in> set (x # zs)" "b \<in> set (x # zs)" for a b
    using that snoc.prems(1) [of a b] by auto
  have ih: "m ?r \<le> m u" if "u \<in> set (x # zs)" for u
    using snoc.IH [of u] sub that by blast
  have rmem: "?r \<in> set (x # zs)" by (rule foldl_keep_mem)
  have cmp: "lt ?r z = (m ?r < m z)"
    using snoc.prems(1) [of ?r z] rmem by auto
  have yc: "y \<in> set (x # zs) \<or> y = z" using snoc.prems(2) by auto
  show ?case
  proof (cases "lt ?r z")
    case True
    then have res: "foldl ?f x (zs @ [z]) = ?r" by simp
    from yc show ?thesis
    proof
      assume "y \<in> set (x # zs)"
      then show ?thesis unfolding res by (rule ih)
    next
      assume "y = z"
      then show ?thesis unfolding res using True cmp by simp
    qed
  next
    case False
    then have res: "foldl ?f x (zs @ [z]) = z" by simp
    from yc show ?thesis
    proof
      assume "y \<in> set (x # zs)"
      then have "m ?r \<le> m y" by (rule ih)
      then show ?thesis unfolding res using False cmp by simp
    next
      assume "y = z"
      then show ?thesis unfolding res by simp
    qed
  qed
qed

lemma foldl_keep_perm:
  fixes m :: "'a \<Rightarrow> int"
  assumes eq: "set (x # xs) = set (y # ys)" and inj: "inj_on m (set (x # xs))"
    and lt: "\<And>a b. a \<in> set (x # xs) \<Longrightarrow> b \<in> set (x # xs) \<Longrightarrow> lt a b = (m a < m b)"
  shows "foldl (\<lambda>prev curr. if lt prev curr then prev else curr) x xs
       = foldl (\<lambda>prev curr. if lt prev curr then prev else curr) y ys"
proof -
  let ?f = "\<lambda>prev curr. if lt prev curr then prev else curr"
  have lt': "lt a b = (m a < m b)" if "a \<in> set (y # ys)" "b \<in> set (y # ys)" for a b
    using that lt [of a b] unfolding eq by simp
  have a: "foldl ?f x xs \<in> set (x # xs)" by (rule foldl_keep_mem)
  have "foldl ?f y ys \<in> set (y # ys)" by (rule foldl_keep_mem)
  then have b: "foldl ?f y ys \<in> set (x # xs)" unfolding eq .
  have a': "foldl ?f x xs \<in> set (y # ys)" using a unfolding eq .
  have "m (foldl ?f x xs) \<le> m (foldl ?f y ys)" using lt b by (rule foldl_keep_least)
  moreover have "m (foldl ?f y ys) \<le> m (foldl ?f x xs)" using lt' a' by (rule foldl_keep_least)
  ultimately have "m (foldl ?f x xs) = m (foldl ?f y ys)" by simp
  then show ?thesis using inj a b unfolding inj_on_def by blast
qed

lemma linux_select_Cons:
  assumes "filter (\<lambda>int. operstate int = LinuxOperstate_Up)
             (filter (\<lambda>int. family int = UnixAddressFamily af) ifs) = x # xs"
  shows "linux_defaultInterfaceByAddressFamily ifs af
       = Inr (foldl (\<lambda>prev curr. if js_less (metric prev) (metric curr) then prev else curr) x xs)"
  using assms by (simp add: linux_defaultInterfaceByAddressFamily_def)

lemma linux_select_Nil:
  assumes "filter (\<lambda>int. operstate int = LinuxOperstate_Up)
             (filter (\<lambda>int. family int = UnixAddressFamily af) ifs) = []"
  shows "linux_defaultInterfaceByAddressFamily ifs af = Inl DefaultInterfaceNotFoundError"
  using assms by (simp add: linux_defaultInterfaceByAddressFamily_def)

lemma linux_select_InrD:
  assumes "linux_defaultInterfaceByAddressFamily ifs af = Inr r"
  shows "\<exists>x xs. filter (\<lambda>int. operstate int = LinuxOperstate_Up)
             (filter (\<lambda>int. family int = UnixAddressFamily af) ifs) = x # xs
           \<and> r = foldl (\<lambda>prev curr. if js_less (metric prev) (metric curr) then prev else curr) x xs"
proof (cases "filter (\<lambda>int. operstate int = LinuxOperstate_Up)
             (filter (\<lambda>int. family int = UnixAddressFamily af) ifs)")
  case Nil
  from linux_select_Nil [OF Nil] assms show ?thesis by simp
next
  case (Cons x xs)
  from linux_select_Cons [OF Cons] assms Cons show ?thesis by simp
qed

lemma windows_select_Cons:
  assumes "filter (\<lambda>int. AddressState int = WindowsAddressState_Preferred)
             (filter (\<lambda>int. AddressFamily int = WindowsAddressFamily af) ifs) = x # xs"
  shows "windows_defaultInterfaceByAddressFamily ifs af
       = Inr (foldl (\<lambda>prev curr. if InterfaceMetric prev < InterfaceMetric curr then prev else curr) x xs)"
proof -
  have "filter (\<lambda>int. AddressFamily int = WindowsAddressFamily af) ifs \<noteq> []"
  proof
    assume "filter (\<lambda>int. AddressFamily int = WindowsAddressFamily af) ifs = []"
    then have "filter (\<lambda>int. AddressState int = WindowsAddressState_Preferred)
                 (filter (\<lambda>int. AddressFamily int = WindowsAddressFamily af) ifs) = []"
      by (simp only: filter.simps)
    with assms show False by simp
  qed
  then show ?thesis using assms
    by (simp add: windows_defaultInterfaceByAddressFamily_def)
qed

lemma windows_select_Nil:
  assumes "filter (\<lambda>int. AddressState int = WindowsAddressState_Preferred)
             (filter (\<lambda>int. AddressFamily int = WindowsAddressFamily af) ifs) = []"
  shows "windows_defaultInterfaceByAddressFamily ifs af
       = Inl (if filter (\<lambda>int. AddressFamily int = WindowsAddressFamily af) ifs = []
              then DefaultInterfaceNotFoundError else NoAvailableNetworkError)"
  using assms by (simp add: windows_defaultInterfaceByAddressFamily_def)

lemma windows_select_InrD:
  assumes "windows_defaultInterfaceByAddressFamily ifs af = Inr r"
  shows "\<exists>x xs. filter (\<lambda>int. AddressState int = WindowsAddressState_Preferred)
             (filter (\<lambda>int. AddressFamily int = WindowsAddressFamily af) ifs) = x # xs
           \<and> r = foldl (\<lambda>prev curr. if InterfaceMetric prev < InterfaceMetric curr then prev else curr) x xs"
proof (cases "filter (\<lambda>int. AddressState int = WindowsAddressState_Preferred)
             (filter (\<lambda>int. AddressFamily int = WindowsAddressFamily af) ifs)")
  case Nil
  from windows_select_Nil [OF Nil] assms show ?thesis by simp
next
  case (Cons x xs)
  from windows_select_Cons [OF Cons] assms Cons show ?thesis by simp
qed

section \<open>Interface Selector: what a returned candidate is\<close>

lemma linux_selected_props:
  assumes "linux_defaultInterfaceByAddressFamily ifs af = Inr r"
  shows "r \<in> set ifs" and "family r = UnixAddressFamily af" and "operstate r = ''UP''"
proof -
  let ?S = "filter (\<lambda>int. operstate int = LinuxOperstate_Up)
              (filter (\<lambda>int. family int = UnixAddressFamily af) ifs)"
  from linux_select_InrD [OF assms] obtain x xs where
    S: "?S = x # xs" and
    r: "r = foldl (\<lambda>prev curr. if js_less (metric prev) (metric curr) then prev else curr) x xs"
    by blast
  have "r \<in> set (x # xs)" unfolding r by (rule foldl_keep_mem)
  then have "r \<in> set ?S" unfolding S .
  then show "r \<in> set ifs" and "family r = UnixAddressFamily af" and "operstate r = ''UP''"
    by (simp_all add: LinuxOperstate_Up_def)
qed

lemma windows_selected_props:
  assumes "windows_defaultInterfaceByAddressFamily ifs af = Inr r"
  shows "r \<in> set ifs" and "AddressFamily r = WindowsAddressFamily af" and "AddressState r = 4"
proof -
  let ?S = "filter (\<lambda>int. AddressState int = WindowsAddressState_Preferred)
              (filter (\<lambda>int. AddressFamily int = WindowsAddressFamily af) ifs)"
  from windows_select_InrD [OF assms] obtain x xs where
    S: "?S = x # xs" and
    r: "r = foldl (\<lambda>prev curr. if InterfaceMetric prev < InterfaceMetric curr then prev else curr) x xs"
    by blast
  have "r \<in> set (x # xs)" unfolding r by (rule foldl_keep_mem)
  then have "r \<in> set ?S" unfolding S .
  then show "r \<in> set ifs" and "AddressFamily r = WindowsAddressFamily af" and "AddressState r = 4"
    by (simp_all add: WindowsAddressState_Preferred_def)
qed

text \<open>
  Claim C9. Whenever the Linux or the Windows \<open>defaultInterfaceByAddressFamily\<close> returns, the
  record it returns is an element of its input list, its family marker is the marker of the
  requested address family and its state is the usable one (\<open>UP\<close>, Preferred = 4).
\<close>

theorem selector_returns_usable_input_candidate:
  "(linux_defaultInterfaceByAddressFamily ifs af = Inr r \<longrightarrow>
      r \<in> set ifs \<and> family r = UnixAddressFamily af \<and> operstate r = ''UP'')
   \<and> (windows_defaultInterfaceByAddressFamily wifs af = Inr w \<longrightarrow>
      w \<in> set wifs \<and> AddressFamily w = WindowsAddressFamily af \<and> AddressState w = 4)"
  using linux_selected_props [of ifs af r] windows_selected_props [of wifs af w] by blast

theorem selector_returns_usable_input_candidate_witness:
  "linux_defaultInterfaceByAddressFamily
     [\<lparr>dst = ''default'', gateway = ''10.0.0.1'', dev = ''wlan0'', protocol = Some ''dhcp'', metric = Some 600,
       ifname = ''wlan0'', operstate = ''UP'', family = ''inet'', local = ''10.0.0.7'', prefixlen = Num 8\<rparr>,
      \<lparr>dst = ''default'', gateway = ''192.168.1.1'', dev = ''eth0'', protocol = Some ''dhcp'', metric = Some 100,
       ifname = ''eth0'', operstate = ''UP'', family = ''inet'', local = ''192.168.1.15'', prefixlen = Num 24\<rparr>]
     IPv4
   = Inr \<lparr>dst = ''default'', gateway = ''192.168.1.1'', dev = ''eth0'', protocol = Some ''dhcp'', metric = Some 100,
       ifname = ''eth0'', operstate = ''UP'', family = ''inet'', local = ''192.168.1.15'', prefixlen = Num 24\<rparr>
   \<and> windows_defaultInterfaceByAddressFamily
     [\<lparr>NetRoute.ifIndex = 12, NextHop = ''192.168.1.1'', InterfaceMetric = 25,
       IPAddress = ''192.168.1.20'', InterfaceAlias = ''Ethernet'', AddressFamily = 2,
       PrefixLength = Num 24, AddressState = 4\<rparr>]
     IPv4
   = Inr \<lparr>NetRoute.ifIndex = 12, NextHop = ''192.168.1.1'', InterfaceMetric = 25,
       IPAddress = ''192.168.1.20'', InterfaceAlias = ''Ethernet'', AddressFamily = 2,
       PrefixLength = Num 24, AddressState = 4\<rparr>
   \<and> family \<lparr>dst = ''default'', gateway = ''192.168.1.1'', dev = ''eth0'', protocol = Some ''dhcp'', metric = Some 100,
       ifname = ''eth0'', operstate = ''UP'', family = ''inet'', local = ''192.168.1.15'', prefixlen = Num 24\<rparr>
     = UnixAddressFamily IPv4"
  using selector_returns_usable_input_candidate
    [of "[\<lparr>dst = ''default'', gateway = ''10.0.0.1'', dev = ''wlan0'', protocol = Some ''dhcp'', metric = Some 600,
       ifname = ''wlan0'', operstate = ''UP'', family = ''inet'', local = ''10.0.0.7'', prefixlen = Num 8\<rparr>,
      \<lparr>dst = ''default'', gateway = ''192.168.1.1'', dev = ''eth0'', protocol = Some ''dhcp'', metric = Some 100,
       ifname = ''eth0'', operstate = ''UP'', family = ''inet'', local = ''192.168.1.15'', prefixlen = Num 24\<rparr>]"
      IPv4
      "\<lparr>dst = ''default'', gateway = ''192.168.1.1'', dev = ''eth0'', protocol = Some ''dhcp'', metric = Some 100,
       ifname = ''eth0'', operstate = ''UP'', family = ''inet'', local = ''192.168.1.15'', prefixlen = Num 24\<rparr>"
      "[\<lparr>NetRoute.ifIndex = 12, NextHop = ''192.168.1.1'', InterfaceMetric = 25,
       IPAddress = ''192.168.1.20'', InterfaceAlias = ''Ethernet'', AddressFamily = 2,
       PrefixLength = Num 24, AddressState = 4\<rparr>]"
      "\<lparr>NetRoute.ifIndex = 12, NextHop = ''192.168.1.1'', InterfaceMetric = 25,
       IPAddress = ''192.168.1.20'', InterfaceAlias = ''Ethernet'', AddressFamily = 2,
       PrefixLength = Num 24, AddressState = 4\<rparr>"]
  by (simp add: linux_defaultInterfaceByAddressFamily_def windows_defaultInterfaceByAddressFamily_def
        LinuxOperstate_Up_def WindowsAddressState_Preferred_def)

section \<open>Interface Selector: filtering and the two error kinds\<close>

text \<open>
  Claim C8. A candidate whose state is not the usable one is never the record that the Linux
  or the Windows selector returns, whatever its metric is.
\<close>

theorem selector_never_returns_unusable_candidate:
  "(operstate c \<noteq> ''UP'' \<longrightarrow> linux_defaultInterfaceByAddressFamily ifs af \<noteq> Inr c)
   \<and> (AddressState w \<noteq> 4 \<longrightarrow> windows_defaultInterfaceByAddressFamily wifs af \<noteq> Inr w)"
  using linux_selected_props(3) [of ifs af c] windows_selected_props(3) [of wifs af w] by blast

theorem selector_never_returns_unusable_candidate_witness:
  "operstate \<lparr>dst = ''default'', gateway = ''10.0.0.1'', dev = ''wlan0'', protocol = None, metric = Some 1,
       ifname = ''wlan0'', operstate = ''DOWN'', family = ''inet'', local = ''10.0.0.7'', prefixlen = Num 8\<rparr>
     \<noteq> ''UP''
   \<and> linux_defaultInterfaceByAddressFamily
     [\<lparr>dst = ''default'', gateway = ''10.0.0.1'', dev = ''wlan0'', protocol = None, metric = Some 1,
       ifname = ''wlan0'', operstate = ''DOWN'', family = ''inet'', local = ''10.0.0.7'', prefixlen = Num 8\<rparr>,
      \<lparr>dst = ''default'', gateway = ''192.168.1.1'', dev = ''eth0'', protocol = None, metric = Some 100,
       ifname = ''eth0'', operstate = ''UP'', family = ''inet'', local = ''192.168.1.15'', prefixlen = Num 24\<rparr>]
     IPv4
   \<noteq> Inr \<lparr>dst = ''default'', gateway = ''10.0.0.1'', dev = ''wlan0'', protocol = None, metric = Some 1,
       ifname = ''wlan0'', operstate = ''DOWN'', family = ''inet'', local = ''10.0.0.7'', prefixlen = Num 8\<rparr>
   \<and> AddressState \<lparr>NetRoute.ifIndex = 7, NextHop = ''10.0.0.1'', InterfaceMetric = 1,
       IPAddress = ''10.0.0.7'', InterfaceAlias = ''Wi-Fi'', AddressFamily = 2,
       PrefixLength = Num 8, AddressState = 3\<rparr> \<noteq> 4
   \<and> windows_defaultInterfaceByAddressFamily
     [\<lparr>NetRoute.ifIndex = 7, NextHop = ''10.0.0.1'', InterfaceMetric = 1,
       IPAddress = ''10.0.0.7'', InterfaceAlias = ''Wi-Fi'', AddressFamily = 2,
       PrefixLength = Num 8, AddressState = 3\<rparr>,
      \<lparr>NetRoute.ifIndex = 12, NextHop = ''192.168.1.1'', InterfaceMetric = 25,
       IPAddress = ''192.168.1.20'', InterfaceAlias = ''Ethernet'', AddressFamily = 2,
       PrefixLength = Num 24, AddressState = 4\<rparr>]
     IPv4
   \<noteq> Inr \<lparr>NetRoute.ifIndex = 7, NextHop = ''10.0.0.1'', InterfaceMetric = 1,
       IPAddress = ''10.0.0.7'', InterfaceAlias = ''Wi-Fi'', AddressFamily = 2,
       PrefixLength = Num 8, AddressState = 3\<rparr>"
  using selector_never_returns_unusable_candidate
    [of "\<lparr>dst = ''default'', gateway = ''10.0.0.1'', dev = ''wlan0'', protocol = None, metric = Some 1,
       ifname = ''wlan0'', operstate = ''DOWN'', family = ''inet'', local = ''10.0.0.7'', prefixlen = Num 8\<rparr>"
      "[\<lparr>dst = ''default'', gateway = ''10.0.0.1'', dev = ''wlan0'', protocol = None, metric = Some 1,
       ifname = ''wlan0'', operstate = ''DOWN'', family = ''inet'', local = ''10.0.0.7'', prefixlen = Num 8\<rparr>,
      \<lparr>dst = ''default'', gateway = ''192.168.1.1'', dev = ''eth0'', protocol = None, metric = Some 100,
       ifname = ''eth0'', operstate = ''UP'', family = ''inet'', local = ''192.168.1.15'', prefixlen = Num 24\<rparr>]"
      IPv4
      "\<lparr>NetRoute.ifIndex = 7, NextHop = ''10.0.0.1'', InterfaceMetric = 1,
       IPAddress = ''10.0.0.7'', InterfaceAlias = ''Wi-Fi'', AddressFamily = 2,
       PrefixLength = Num 8, AddressState = 3\<rparr>"
      "[\<lparr>NetRoute.ifIndex = 7, NextHop = ''10.0.0.1'', InterfaceMetric = 1,
       IPAddress = ''10.0.0.7'', InterfaceAlias = ''Wi-Fi'', AddressFamily = 2,
       PrefixLength = Num 8, AddressState = 3\<rparr>,
      \<lparr>NetRoute.ifIndex = 12, NextHop = ''192.168.1.1'', InterfaceMetric = 25,
       IPAddress = ''192.168.1.20'', InterfaceAlias = ''Ethernet'', AddressFamily = 2,
       PrefixLength = Num 24, AddressState = 4\<rparr>]"]
  by simp

lemma linux_none_usable:
  assumes "\<forall>c\<in>set ifs. family c = UnixAddressFamily af \<longrightarrow> operstate c \<noteq> ''UP''"
  shows "linux_defaultInterfaceByAddressFamily ifs af = Inl DefaultInterfaceNotFoundError"
proof (rule linux_select_Nil)
  show "filter (\<lambda>int. operstate int = LinuxOperstate_Up)
          (filter (\<lambda>int. family int = UnixAddressFamily af) ifs) = []"
    using assms by (simp add: filter_empty_conv LinuxOperstate_Up_def)
qed

lemma windows_none_usable:
  assumes "\<forall>c\<in>set ifs. AddressFamily c = WindowsAddressFamily af \<longrightarrow> AddressState c \<noteq> 4"
  shows "windows_defaultInterfaceByAddressFamily ifs af
       = Inl (if filter (\<lambda>int. AddressFamily int = WindowsAddressFamily af) ifs = []
              then DefaultInterfaceNotFoundError else NoAvailableNetworkError)"
proof (rule windows_select_Nil)
  show "filter (\<lambda>int. AddressState int = WindowsAddressState_Preferred)
          (filter (\<lambda>int. AddressFamily int = WindowsAddressFamily af) ifs) = []"
    using assms by (simp add: filter_empty_conv WindowsAddressState_Preferred_def)
qed

text \<open>
  Claim C3, as stated, fails on Linux: one candidate of the requested family whose state is
  \<open>DOWN\<close> gives "default interface not found", the same error as an empty family filter.
\<close>

theorem linux_family_match_not_up_counterexample:
  "linux_defaultInterfaceByAddressFamily
     [\<lparr>dst = ''default'', gateway = ''192.168.1.1'', dev = ''eth0'', protocol = None, metric = Some 100,
       ifname = ''eth0'', operstate = ''DOWN'', family = ''inet'', local = ''192.168.1.15'', prefixlen = Num 24\<rparr>]
     IPv4
   = Inl DefaultInterfaceNotFoundError"
  by (simp add: linux_defaultInterfaceByAddressFamily_def LinuxOperstate_Up_def)

text \<open>
  Claim C3, amended. On Windows, when some candidate matches the requested family and no
  family-matching candidate is Preferred, the selection fails with "no available network",
  and with "default interface not found" when no candidate matches the family. On Linux the
  selection fails with "default interface not found" in both cases.
\<close>

theorem no_usable_candidate_errors:
  "((\<exists>c\<in>set wifs. AddressFamily c = WindowsAddressFamily af)
      \<and> (\<forall>c\<in>set wifs. AddressFamily c = WindowsAddressFamily af \<longrightarrow> AddressState c \<noteq> 4)
      \<longrightarrow> windows_defaultInterfaceByAddressFamily wifs af = Inl NoAvailableNetworkError)
   \<and> ((\<forall>c\<in>set wifs. AddressFamily c \<noteq> WindowsAddressFamily af)
      \<longrightarrow> windows_defaultInterfaceByAddressFamily wifs af = Inl DefaultInterfaceNotFoundError)
   \<and> ((\<forall>c\<in>set ifs. family c = UnixAddressFamily af \<longrightarrow> operstate c \<noteq> ''UP'')
      \<longrightarrow> linux_defaultInterfaceByAddressFamily ifs af = Inl DefaultInterfaceNotFoundError)"
proof (intro conjI impI)
  assume h: "(\<exists>c\<in>set wifs. AddressFamily c = WindowsAddressFamily af)
      \<and> (\<forall>c\<in>set wifs. AddressFamily c = WindowsAddressFamily af \<longrightarrow> AddressState c \<noteq> 4)"
  then have "filter (\<lambda>int. AddressFamily int = WindowsAddressFamily af) wifs \<noteq> []"
    by (simp add: filter_empty_conv)
  with h windows_none_usable [of wifs af]
  show "windows_defaultInterfaceByAddressFamily wifs af = Inl NoAvailableNetworkError" by simp
next
  assume h: "\<forall>c\<in>set wifs. AddressFamily c \<noteq> WindowsAddressFamily af"
  then have "filter (\<lambda>int. AddressFamily int = WindowsAddressFamily af) wifs = []"
    by (simp add: filter_empty_conv)
  moreover from h have "\<forall>c\<in>set wifs. AddressFamily c = WindowsAddressFamily af \<longrightarrow> AddressState c \<noteq> 4"
    by simp
  ultimately show "windows_defaultInterfaceByAddressFamily wifs af = Inl DefaultInterfaceNotFoundError"
    using windows_none_usable [of wifs af] by simp
next
  assume "\<forall>c\<in>set ifs. family c = UnixAddressFamily af \<longrightarrow> operstate c \<noteq> ''UP''"
  then show "linux_defaultInterfaceByAddressFamily ifs af = Inl DefaultInterfaceNotFoundError"
    by (rule linux_none_usable)
qed

theorem no_usable_candidate_errors_witness:
  "windows_defaultInterfaceByAddressFamily
     [\<lparr>NetRoute.ifIndex = 7, NextHop = ''10.0.0.1'', InterfaceMetric = 1,
       IPAddress = ''10.0.0.7'', InterfaceAlias = ''Wi-Fi'', AddressFamily = 2,
       PrefixLength = Num 8, AddressState = 3\<rparr>] IPv4
   = Inl NoAvailableNetworkError
   \<and> windows_defaultInterfaceByAddressFamily
     [\<lparr>NetRoute.ifIndex = 7, NextHop = ''10.0.0.1'', InterfaceMetric = 1,
       IPAddress = ''10.0.0.7'', InterfaceAlias = ''Wi-Fi'', AddressFamily = 2,
       PrefixLength = Num 8, AddressState = 3\<rparr>] IPv6
   = Inl DefaultInterfaceNotFoundError
   \<and> linux_defaultInterfaceByAddressFamily
     [\<lparr>dst = ''default'', gateway = ''192.168.1.1'', dev = ''eth0'', protocol = None, metric = Some 100,
       ifname = ''eth0'', operstate = ''DOWN'', family = ''inet'', local = ''192.168.1.15'', prefixlen = Num 24\<rparr>]
     IPv4
   = Inl DefaultInterfaceNotFoundError"
  using no_usable_candidate_errors
    [of "[\<lparr>NetRoute.ifIndex = 7, NextHop = ''10.0.0.1'', InterfaceMetric = 1,
       IPAddress = ''10.0.0.7'', InterfaceAlias = ''Wi-Fi'', AddressFamily = 2,
       PrefixLength = Num 8, AddressState = 3\<rparr>]" IPv4
       "[\<lparr>dst = ''default'', gateway = ''192.168.1.1'', dev = ''eth0'', protocol = None, metric = Some 100,
       ifname = ''eth0'', operstate = ''DOWN'', family = ''inet'', local = ''192.168.1.15'', prefixlen = Num 24\<rparr>]"]
    no_usable_candidate_errors
    [of "[\<lparr>NetRoute.ifIndex = 7, NextHop = ''10.0.0.1'', InterfaceMetric = 1,
       IPAddress = ''10.0.0.7'', InterfaceAlias = ''Wi-Fi'', AddressFamily = 2,
       PrefixLength = Num 8, AddressState = 3\<rparr>]" IPv6 "[]"]
  by simp

section \<open>Interface Selector: the tie-break\<close>

lemma linux_survivors:
  "filter (\<lambda>int. operstate int = LinuxOperstate_Up)
     (filter (\<lambda>int. family int = UnixAddressFamily af) ifs)
   = filter (\<lambda>i. family i = UnixAddressFamily af \<and> operstate i = ''UP'') ifs"
  by (simp add: LinuxOperstate_Up_def)

lemma windows_survivors:
  "filter (\<lambda>int. AddressState int = WindowsAddressState_Preferred)
     (filter (\<lambda>int. AddressFamily int = WindowsAddressFamily af) ifs)
   = filter (\<lambda>i. AddressFamily i = WindowsAddressFamily af \<and> AddressState i = 4) ifs"
  by (simp add: WindowsAddressState_Preferred_def)

lemma js_less_iff:
  "js_less a b \<longleftrightarrow> (\<exists>v w. a = Some v \<and> b = Some w \<and> v < w)"
  by (cases a; cases b) simp_all

lemma linux_select_split:
  assumes "linux_defaultInterfaceByAddressFamily ifs af = Inr r"
  shows "\<exists>pre post. filter (\<lambda>i. family i = UnixAddressFamily af \<and> operstate i = ''UP'') ifs = pre @ r # post
           \<and> (\<forall>y\<in>set post. \<exists>v w. metric r = Some v \<and> metric y = Some w \<and> v < w)"
proof -
  from linux_select_InrD [OF assms] obtain x xs where
    S: "filter (\<lambda>i. family i = UnixAddressFamily af \<and> operstate i = ''UP'') ifs = x # xs" and
    r: "r = foldl (\<lambda>prev curr. if js_less (metric prev) (metric curr) then prev else curr) x xs"
    unfolding linux_survivors by blast
  from foldl_keep_split [of x xs "\<lambda>a b. js_less (metric a) (metric b)"]
  show ?thesis unfolding S r js_less_iff .
qed

lemma linux_select_least:
  assumes sel: "linux_defaultInterfaceByAddressFamily ifs af = Inr r"
    and all: "\<forall>y\<in>set (filter (\<lambda>i. family i = UnixAddressFamily af \<and> operstate i = ''UP'') ifs). metric y \<noteq> None"
    and y: "y \<in> set (filter (\<lambda>i. family i = UnixAddressFamily af \<and> operstate i = ''UP'') ifs)"
  shows "\<exists>v w. metric r = Some v \<and> metric y = Some w \<and> v \<le> w"
proof -
  let ?m = "\<lambda>c. case metric c of Some v \<Rightarrow> v | None \<Rightarrow> (0::int)"
  let ?f = "\<lambda>prev curr. if js_less (metric prev) (metric curr) then prev else curr"
  from linux_select_InrD [OF sel] obtain x xs where
    S: "filter (\<lambda>i. family i = UnixAddressFamily af \<and> operstate i = ''UP'') ifs = x # xs" and r: "r = foldl ?f x xs"
    unfolding linux_survivors by blast
  have lt: "js_less (metric a) (metric b) = (?m a < ?m b)"
    if "a \<in> set (x # xs)" "b \<in> set (x # xs)" for a b
    using that all unfolding S by (cases "metric a"; cases "metric b") auto
  have y': "y \<in> set (x # xs)" using y unfolding S .
  have le: "?m (foldl ?f x xs) \<le> ?m y"
    using lt y' by (rule foldl_keep_least [where lt = "\<lambda>a b. js_less (metric a) (metric b)"])
  have "foldl ?f x xs \<in> set (x # xs)" by (rule foldl_keep_mem)
  then have rm: "metric r \<noteq> None" using all unfolding S r by blast
  have ym: "metric y \<noteq> None" using all y by blast
  from rm ym le show ?thesis unfolding r by (cases "metric (foldl ?f x xs)"; cases "metric y") auto
qed

lemma windows_select_split:
  assumes "windows_defaultInterfaceByAddressFamily ifs af = Inr r"
  shows "\<exists>pre post. filter (\<lambda>i. AddressFamily i = WindowsAddressFamily af \<and> AddressState i = 4) ifs = pre @ r # post
           \<and> (\<forall>y\<in>set post. InterfaceMetric r < InterfaceMetric y)"
proof -
  from windows_select_InrD [OF assms] obtain x xs where
    S: "filter (\<lambda>i. AddressFamily i = WindowsAddressFamily af \<and> AddressState i = 4) ifs = x # xs" and
    r: "r = foldl (\<lambda>prev curr. if InterfaceMetric prev < InterfaceMetric curr then prev else curr) x xs"
    unfolding windows_survivors by blast
  from foldl_keep_split [of x xs "\<lambda>a b. InterfaceMetric a < InterfaceMetric b"]
  show ?thesis unfolding S r .
qed

lemma windows_select_least:
  assumes "windows_defaultInterfaceByAddressFamily ifs af = Inr r" and "y \<in> set (filter (\<lambda>i. AddressFamily i = WindowsAddressFamily af \<and> AddressState i = 4) ifs)"
  shows "InterfaceMetric r \<le> InterfaceMetric y"
proof -
  from windows_select_InrD [OF assms(1)] obtain x xs where
    S: "filter (\<lambda>i. AddressFamily i = WindowsAddressFamily af \<and> AddressState i = 4) ifs = x # xs" and
    r: "r = foldl (\<lambda>prev curr. if InterfaceMetric prev < InterfaceMetric curr then prev else curr) x xs"
    unfolding windows_survivors by blast
  have y': "y \<in> set (x # xs)" using assms(2) unfolding S .
  show ?thesis unfolding r
    using _ y'
    by (rule foldl_keep_least [where lt = "\<lambda>a b. InterfaceMetric a < InterfaceMetric b"]) simp
qed

lemma linux_select_perm:
  assumes all: "\<forall>y\<in>set (filter (\<lambda>i. family i = UnixAddressFamily af \<and> operstate i = ''UP'') ifs). metric y \<noteq> None"
    and d: "distinct (map metric (filter (\<lambda>i. family i = UnixAddressFamily af \<and> operstate i = ''UP'') ifs))" and p: "mset ifs' = mset ifs"
  shows "linux_defaultInterfaceByAddressFamily ifs' af = linux_defaultInterfaceByAddressFamily ifs af"
proof -
  let ?m = "\<lambda>c. case metric c of Some v \<Rightarrow> v | None \<Rightarrow> (0::int)"
  have m: "mset ((filter (\<lambda>i. family i = UnixAddressFamily af \<and> operstate i = ''UP'') ifs')) = mset (filter (\<lambda>i. family i = UnixAddressFamily af \<and> operstate i = ''UP'') ifs)" using p by simp
  show ?thesis
  proof (cases "filter (\<lambda>i. family i = UnixAddressFamily af \<and> operstate i = ''UP'') ifs")
    case Nil
    with m have "(filter (\<lambda>i. family i = UnixAddressFamily af \<and> operstate i = ''UP'') ifs') = []" by simp
    with Nil show ?thesis
      using linux_select_Nil [of af ifs] linux_select_Nil [of af ifs']
      unfolding linux_survivors by simp
  next
    case (Cons x xs)
    have "((filter (\<lambda>i. family i = UnixAddressFamily af \<and> operstate i = ''UP'') ifs')) \<noteq> []"
    proof
      assume e: "((filter (\<lambda>i. family i = UnixAddressFamily af \<and> operstate i = ''UP'') ifs')) = []"
      have "mset (filter (\<lambda>i. family i = UnixAddressFamily af \<and> operstate i = ''UP'') ifs) = {#}" using m unfolding e by simp
      then show False using Cons by simp
    qed
    then obtain y ys where C': "(filter (\<lambda>i. family i = UnixAddressFamily af \<and> operstate i = ''UP'') ifs') = y # ys" by (cases "(filter (\<lambda>i. family i = UnixAddressFamily af \<and> operstate i = ''UP'') ifs')") auto
    have "set ((filter (\<lambda>i. family i = UnixAddressFamily af \<and> operstate i = ''UP'') ifs')) = set (filter (\<lambda>i. family i = UnixAddressFamily af \<and> operstate i = ''UP'') ifs)" using m by (rule mset_eq_setD)
    then have s: "set (x # xs) = set (y # ys)" unfolding Cons C' by simp
    have all': "\<forall>c\<in>set (x # xs). metric c \<noteq> None" using all unfolding Cons .
    have "inj_on metric (set (filter (\<lambda>i. family i = UnixAddressFamily af \<and> operstate i = ''UP'') ifs))" using d by (simp add: distinct_map)
    then have im: "inj_on metric (set (x # xs))" unfolding Cons .
    have i: "inj_on ?m (set (x # xs))"
    proof (rule inj_onI)
      fix a b assume a: "a \<in> set (x # xs)" and b: "b \<in> set (x # xs)" and e: "?m a = ?m b"
      from a b all' have "metric a \<noteq> None" "metric b \<noteq> None" by blast+
      with e have "metric a = metric b" by (cases "metric a"; cases "metric b") auto
      with im a b show "a = b" unfolding inj_on_def by blast
    qed
    have lt: "js_less (metric a) (metric b) = (?m a < ?m b)"
      if "a \<in> set (x # xs)" "b \<in> set (x # xs)" for a b
      using that all' by (cases "metric a"; cases "metric b") auto
    have "foldl (\<lambda>prev curr. if js_less (metric prev) (metric curr) then prev else curr) x xs
        = foldl (\<lambda>prev curr. if js_less (metric prev) (metric curr) then prev else curr) y ys"
      using s i lt
      by (rule foldl_keep_perm [where lt = "\<lambda>a b. js_less (metric a) (metric b)"])
    then show ?thesis
      using linux_select_Cons [of af ifs x xs] linux_select_Cons [of af ifs' y ys] Cons C'
      unfolding linux_survivors by simp
  qed
qed

lemma windows_select_perm:
  assumes d: "distinct (map InterfaceMetric (filter (\<lambda>i. AddressFamily i = WindowsAddressFamily af \<and> AddressState i = 4) ifs))" and p: "mset ifs' = mset ifs"
  shows "windows_defaultInterfaceByAddressFamily ifs' af = windows_defaultInterfaceByAddressFamily ifs af"
proof -
  have m: "mset ((filter (\<lambda>i. AddressFamily i = WindowsAddressFamily af \<and> AddressState i = 4) ifs')) = mset (filter (\<lambda>i. AddressFamily i = WindowsAddressFamily af \<and> AddressState i = 4) ifs)" using p by simp
  have "mset (filter (\<lambda>int. AddressFamily int = WindowsAddressFamily af) ifs')
      = mset (filter (\<lambda>int. AddressFamily int = WindowsAddressFamily af) ifs)" using p by simp
  then have f: "filter (\<lambda>int. AddressFamily int = WindowsAddressFamily af) ifs' = []
      \<longleftrightarrow> filter (\<lambda>int. AddressFamily int = WindowsAddressFamily af) ifs = []"
    by (metis mset_zero_iff)
  show ?thesis
  proof (cases "filter (\<lambda>i. AddressFamily i = WindowsAddressFamily af \<and> AddressState i = 4) ifs")
    case Nil
    with m have "(filter (\<lambda>i. AddressFamily i = WindowsAddressFamily af \<and> AddressState i = 4) ifs') = []" by simp
    with Nil show ?thesis
      using windows_select_Nil [of af ifs] windows_select_Nil [of af ifs'] f
      unfolding windows_survivors by simp
  next
    case (Cons x xs)
    have "((filter (\<lambda>i. AddressFamily i = WindowsAddressFamily af \<and> AddressState i = 4) ifs')) \<noteq> []"
    proof
      assume e: "((filter (\<lambda>i. AddressFamily i = WindowsAddressFamily af \<and> AddressState i = 4) ifs')) = []"
      have "mset (filter (\<lambda>i. AddressFamily i = WindowsAddressFamily af \<and> AddressState i = 4) ifs) = {#}" using m unfolding e by simp
      then show False using Cons by simp
    qed
    then obtain y ys where C': "(filter (\<lambda>i. AddressFamily i = WindowsAddressFamily af \<and> AddressState i = 4) ifs') = y # ys" by (cases "(filter (\<lambda>i. AddressFamily i = WindowsAddressFamily af \<and> AddressState i = 4) ifs')") auto
    have "set ((filter (\<lambda>i. AddressFamily i = WindowsAddressFamily af \<and> AddressState i = 4) ifs')) = set (filter (\<lambda>i. AddressFamily i = WindowsAddressFamily af \<and> AddressState i = 4) ifs)" using m by (rule mset_eq_setD)
    then have s: "set (x # xs) = set (y # ys)" unfolding Cons C' by simp
    have "inj_on InterfaceMetric (set (filter (\<lambda>i. AddressFamily i = WindowsAddressFamily af \<and> AddressState i = 4) ifs))" using d by (simp add: distinct_map)
    then have i: "inj_on InterfaceMetric (set (x # xs))" unfolding Cons .
    have "foldl (\<lambda>prev curr. if InterfaceMetric prev < InterfaceMetric curr then prev else curr) x xs
        = foldl (\<lambda>prev curr. if InterfaceMetric prev < InterfaceMetric curr then prev else curr) y ys"
      using s i
      by (rule foldl_keep_perm [where lt = "\<lambda>a b. InterfaceMetric a < InterfaceMetric b"]) simp
    then show ?thesis
      using windows_select_Cons [of af ifs x xs] windows_select_Cons [of af ifs' y ys] Cons C'
      unfolding windows_survivors by simp
  qed
qed

lemma linux_select_two:
  assumes "family a = UnixAddressFamily af" "family b = UnixAddressFamily af"
    "operstate a = ''UP''" "operstate b = ''UP''" "metric a = Some 10" "metric b = Some 5"
  shows "linux_defaultInterfaceByAddressFamily [a, b] af = Inr b"
    and "linux_defaultInterfaceByAddressFamily [b, a] af = Inr b"
  using assms by (simp_all add: linux_defaultInterfaceByAddressFamily_def LinuxOperstate_Up_def)

lemma windows_select_two:
  assumes "AddressFamily a = WindowsAddressFamily af" "AddressFamily b = WindowsAddressFamily af"
    "AddressState a = 4" "AddressState b = 4" "InterfaceMetric a = 10" "InterfaceMetric b = 5"
  shows "windows_defaultInterfaceByAddressFamily [a, b] af = Inr b"
    and "windows_defaultInterfaceByAddressFamily [b, a] af = Inr b"
  using assms
  by (simp_all add: windows_defaultInterfaceByAddressFamily_def WindowsAddressState_Preferred_def)

text \<open>
  Claim C2, as stated, fails in two ways. Of two usable candidates of the requested family
  with the same metric, the reduce returns the second one, not the first. And a route that
  \<^verbatim>\<open>ip -j\<close> prints without a metric compares false in both directions, so that of the
  survivors with metric 5, no metric and metric 7, in this order, the one with metric 7 is
  returned.
\<close>

theorem equal_metric_first_not_selected_counterexample:
  "linux_defaultInterfaceByAddressFamily
     [\<lparr>dst = ''default'', gateway = ''192.168.1.1'', dev = ''eth0'', protocol = None, metric = Some 5,
       ifname = ''eth0'', operstate = ''UP'', family = ''inet'', local = ''192.168.1.15'', prefixlen = Num 24\<rparr>,
      \<lparr>dst = ''default'', gateway = ''10.0.0.1'', dev = ''wlan0'', protocol = None, metric = Some 5,
       ifname = ''wlan0'', operstate = ''UP'', family = ''inet'', local = ''10.0.0.7'', prefixlen = Num 8\<rparr>]
     IPv4
   = Inr \<lparr>dst = ''default'', gateway = ''10.0.0.1'', dev = ''wlan0'', protocol = None, metric = Some 5,
       ifname = ''wlan0'', operstate = ''UP'', family = ''inet'', local = ''10.0.0.7'', prefixlen = Num 8\<rparr>
   \<and> linux_defaultInterfaceByAddressFamily
     [\<lparr>dst = ''default'', gateway = ''192.168.1.1'', dev = ''eth0'', protocol = None, metric = Some 5,
       ifname = ''eth0'', operstate = ''UP'', family = ''inet'', local = ''192.168.1.15'', prefixlen = Num 24\<rparr>,
      \<lparr>dst = ''default'', gateway = ''172.16.0.1'', dev = ''eth1'', protocol = None, metric = None,
       ifname = ''eth1'', operstate = ''UP'', family = ''inet'', local = ''172.16.0.9'', prefixlen = Num 16\<rparr>,
      \<lparr>dst = ''default'', gateway = ''10.8.0.1'', dev = ''tun0'', protocol = None, metric = Some 7,
       ifname = ''tun0'', operstate = ''UP'', family = ''inet'', local = ''10.8.0.2'', prefixlen = Num 24\<rparr>]
     IPv4
   = Inr \<lparr>dst = ''default'', gateway = ''10.8.0.1'', dev = ''tun0'', protocol = None, metric = Some 7,
       ifname = ''tun0'', operstate = ''UP'', family = ''inet'', local = ''10.8.0.2'', prefixlen = Num 24\<rparr>"
  by (simp add: linux_defaultInterfaceByAddressFamily_def LinuxOperstate_Up_def)

text \<open>
  Claim C2, amended. For the Linux and the Windows selector, with the candidates that
  survive the family and state filters: every survivor after the selected one in list order
  has a strictly greater metric, so among several survivors of minimal metric the last one
  is selected. When every survivor carries a metric (on Windows it always does), the
  selected candidate's metric is less than or equal to every survivor's metric, and when
  moreover the survivors' metrics are distinct, every reordering of the candidate list gives
  the same result; two usable same-family candidates with metrics 10 and 5 yield the
  metric-5 one in either order. What is selected when some surviving Linux route has no
  metric is left open.
\<close>

theorem selector_tie_break:
  "(linux_defaultInterfaceByAddressFamily ifs af = Inr r \<longrightarrow>
      (\<exists>pre post. filter (\<lambda>i. family i = UnixAddressFamily af \<and> operstate i = ''UP'') ifs = pre @ r # post
         \<and> (\<forall>y\<in>set post. \<exists>v w. metric r = Some v \<and> metric y = Some w \<and> v < w)))
   \<and> (linux_defaultInterfaceByAddressFamily ifs af = Inr r
      \<and> (\<forall>y\<in>set (filter (\<lambda>i. family i = UnixAddressFamily af \<and> operstate i = ''UP'') ifs). metric y \<noteq> None) \<longrightarrow>
      (\<forall>y\<in>set (filter (\<lambda>i. family i = UnixAddressFamily af \<and> operstate i = ''UP'') ifs). \<exists>v w. metric r = Some v \<and> metric y = Some w \<and> v \<le> w))
   \<and> ((\<forall>y\<in>set (filter (\<lambda>i. family i = UnixAddressFamily af \<and> operstate i = ''UP'') ifs). metric y \<noteq> None)
      \<and> distinct (map metric (filter (\<lambda>i. family i = UnixAddressFamily af \<and> operstate i = ''UP'') ifs)) \<and> mset ifs' = mset ifs \<longrightarrow>
      linux_defaultInterfaceByAddressFamily ifs' af = linux_defaultInterfaceByAddressFamily ifs af)
   \<and> (family a = UnixAddressFamily af \<and> family b = UnixAddressFamily af
      \<and> operstate a = ''UP'' \<and> operstate b = ''UP'' \<and> metric a = Some 10 \<and> metric b = Some 5 \<longrightarrow>
      linux_defaultInterfaceByAddressFamily [a, b] af = Inr b
      \<and> linux_defaultInterfaceByAddressFamily [b, a] af = Inr b)
   \<and> (windows_defaultInterfaceByAddressFamily wifs af = Inr w \<longrightarrow>
      (\<forall>y\<in>set (filter (\<lambda>i. AddressFamily i = WindowsAddressFamily af \<and> AddressState i = 4) wifs). InterfaceMetric w \<le> InterfaceMetric y)
      \<and> (\<exists>pre post. filter (\<lambda>i. AddressFamily i = WindowsAddressFamily af \<and> AddressState i = 4) wifs = pre @ w # post \<and> (\<forall>y\<in>set post. InterfaceMetric w < InterfaceMetric y)))
   \<and> (distinct (map InterfaceMetric (filter (\<lambda>i. AddressFamily i = WindowsAddressFamily af \<and> AddressState i = 4) wifs)) \<and> mset wifs' = mset wifs \<longrightarrow>
      windows_defaultInterfaceByAddressFamily wifs' af = windows_defaultInterfaceByAddressFamily wifs af)
   \<and> (AddressFamily wa = WindowsAddressFamily af \<and> AddressFamily wb = WindowsAddressFamily af
      \<and> AddressState wa = 4 \<and> AddressState wb = 4
      \<and> InterfaceMetric wa = 10 \<and> InterfaceMetric wb = 5 \<longrightarrow>
      windows_defaultInterfaceByAddressFamily [wa, wb] af = Inr wb
      \<and> windows_defaultInterfaceByAddressFamily [wb, wa] af = Inr wb)"
proof (intro conjI impI)
  assume h: "linux_defaultInterfaceByAddressFamily ifs af = Inr r"
  show "\<exists>pre post. filter (\<lambda>i. family i = UnixAddressFamily af \<and> operstate i = ''UP'') ifs = pre @ r # post
         \<and> (\<forall>y\<in>set post. \<exists>v w. metric r = Some v \<and> metric y = Some w \<and> v < w)"
    using h by (rule linux_select_split)
next
  assume h: "linux_defaultInterfaceByAddressFamily ifs af = Inr r
      \<and> (\<forall>y\<in>set (filter (\<lambda>i. family i = UnixAddressFamily af \<and> operstate i = ''UP'') ifs). metric y \<noteq> None)"
  show "\<forall>y\<in>set (filter (\<lambda>i. family i = UnixAddressFamily af \<and> operstate i = ''UP'') ifs). \<exists>v w. metric r = Some v \<and> metric y = Some w \<and> v \<le> w"
    using h linux_select_least [of ifs af r] by blast
next
  assume "(\<forall>y\<in>set (filter (\<lambda>i. family i = UnixAddressFamily af \<and> operstate i = ''UP'') ifs). metric y \<noteq> None)
      \<and> distinct (map metric (filter (\<lambda>i. family i = UnixAddressFamily af \<and> operstate i = ''UP'') ifs)) \<and> mset ifs' = mset ifs"
  then show "linux_defaultInterfaceByAddressFamily ifs' af = linux_defaultInterfaceByAddressFamily ifs af"
    using linux_select_perm [of af ifs ifs'] by blast
next
  assume h: "family a = UnixAddressFamily af \<and> family b = UnixAddressFamily af
      \<and> operstate a = ''UP'' \<and> operstate b = ''UP'' \<and> metric a = Some 10 \<and> metric b = Some 5"
  show "linux_defaultInterfaceByAddressFamily [a, b] af = Inr b"
    using h linux_select_two(1) [of a af b] by blast
  show "linux_defaultInterfaceByAddressFamily [b, a] af = Inr b"
    using h linux_select_two(2) [of a af b] by blast
next
  assume h: "windows_defaultInterfaceByAddressFamily wifs af = Inr w"
  show "\<forall>y\<in>set (filter (\<lambda>i. AddressFamily i = WindowsAddressFamily af \<and> AddressState i = 4) wifs). InterfaceMetric w \<le> InterfaceMetric y"
    using windows_select_least [OF h] by blast
  show "\<exists>pre post. filter (\<lambda>i. AddressFamily i = WindowsAddressFamily af \<and> AddressState i = 4) wifs = pre @ w # post \<and> (\<forall>y\<in>set post. InterfaceMetric w < InterfaceMetric y)"
    using windows_select_split [OF h] by blast
next
  assume "distinct (map InterfaceMetric (filter (\<lambda>i. AddressFamily i = WindowsAddressFamily af \<and> AddressState i = 4) wifs)) \<and> mset wifs' = mset wifs"
  then show "windows_defaultInterfaceByAddressFamily wifs' af = windows_defaultInterfaceByAddressFamily wifs af"
    using windows_select_perm [of af wifs wifs'] by blast
next
  assume h: "AddressFamily wa = WindowsAddressFamily af \<and> AddressFamily wb = WindowsAddressFamily af
      \<and> AddressState wa = 4 \<and> AddressState wb = 4
      \<and> InterfaceMetric wa = 10 \<and> InterfaceMetric wb = 5"
  show "windows_defaultInterfaceByAddressFamily [wa, wb] af = Inr wb"
    using h windows_select_two(1) [of wa af wb] by blast
  show "windows_defaultInterfaceByAddressFamily [wb, wa] af = Inr wb"
    using h windows_select_two(2) [of wa af wb] by blast
qed

theorem selector_tie_break_witness:
  "linux_defaultInterfaceByAddressFamily
     [\<lparr>dst = ''default'', gateway = ''192.168.1.1'', dev = ''eth0'', protocol = None, metric = Some 10,
       ifname = ''eth0'', operstate = ''UP'', family = ''inet'', local = ''192.168.1.15'', prefixlen = Num 24\<rparr>,
      \<lparr>dst = ''default'', gateway = ''10.0.0.1'', dev = ''wlan0'', protocol = None, metric = Some 5,
       ifname = ''wlan0'', operstate = ''UP'', family = ''inet'', local = ''10.0.0.7'', prefixlen = Num 8\<rparr>] IPv4
   = Inr \<lparr>dst = ''default'', gateway = ''10.0.0.1'', dev = ''wlan0'', protocol = None, metric = Some 5,
       ifname = ''wlan0'', operstate = ''UP'', family = ''inet'', local = ''10.0.0.7'', prefixlen = Num 8\<rparr>
   \<and> distinct (map metric (filter (\<lambda>i. family i = UnixAddressFamily IPv4 \<and> operstate i = ''UP'')
     [\<lparr>dst = ''default'', gateway = ''192.168.1.1'', dev = ''eth0'', protocol = None, metric = Some 10,
       ifname = ''eth0'', operstate = ''UP'', family = ''inet'', local = ''192.168.1.15'', prefixlen = Num 24\<rparr>,
      \<lparr>dst = ''default'', gateway = ''10.0.0.1'', dev = ''wlan0'', protocol = None, metric = Some 5,
       ifname = ''wlan0'', operstate = ''UP'', family = ''inet'', local = ''10.0.0.7'', prefixlen = Num 8\<rparr>]))
   \<and> mset [\<lparr>dst = ''default'', gateway = ''10.0.0.1'', dev = ''wlan0'', protocol = None, metric = Some 5,
       ifname = ''wlan0'', operstate = ''UP'', family = ''inet'', local = ''10.0.0.7'', prefixlen = Num 8\<rparr>,
      \<lparr>dst = ''default'', gateway = ''192.168.1.1'', dev = ''eth0'', protocol = None, metric = Some 10,
       ifname = ''eth0'', operstate = ''UP'', family = ''inet'', local = ''192.168.1.15'', prefixlen = Num 24\<rparr>]
     = mset [\<lparr>dst = ''default'', gateway = ''192.168.1.1'', dev = ''eth0'', protocol = None, metric = Some 10,
       ifname = ''eth0'', operstate = ''UP'', family = ''inet'', local = ''192.168.1.15'', prefixlen = Num 24\<rparr>,
      \<lparr>dst = ''default'', gateway = ''10.0.0.1'', dev = ''wlan0'', protocol = None, metric = Some 5,
       ifname = ''wlan0'', operstate = ''UP'', family = ''inet'', local = ''10.0.0.7'', prefixlen = Num 8\<rparr>]
   \<and> linux_defaultInterfaceByAddressFamily
     [\<lparr>dst = ''default'', gateway = ''10.0.0.1'', dev = ''wlan0'', protocol = None, metric = Some 5,
       ifname = ''wlan0'', operstate = ''UP'', family = ''inet'', local = ''10.0.0.7'', prefixlen = Num 8\<rparr>,
      \<lparr>dst = ''default'', gateway = ''192.168.1.1'', dev = ''eth0'', protocol = None, metric = Some 10,
       ifname = ''eth0'', operstate = ''UP'', family = ''inet'', local = ''192.168.1.15'', prefixlen = Num 24\<rparr>] IPv4
   = Inr \<lparr>dst = ''default'', gateway = ''10.0.0.1'', dev = ''wlan0'', protocol = None, metric = Some 5,
       ifname = ''wlan0'', operstate = ''UP'', family = ''inet'', local = ''10.0.0.7'', prefixlen = Num 8\<rparr>
   \<and> windows_defaultInterfaceByAddressFamily
     [\<lparr>NetRoute.ifIndex = 12, NextHop = ''192.168.1.1'', InterfaceMetric = 10,
       IPAddress = ''192.168.1.20'', InterfaceAlias = ''Ethernet'', AddressFamily = 2,
       PrefixLength = Num 24, AddressState = 4\<rparr>,
      \<lparr>NetRoute.ifIndex = 7, NextHop = ''10.0.0.1'', InterfaceMetric = 5,
       IPAddress = ''10.0.0.7'', InterfaceAlias = ''Wi-Fi'', AddressFamily = 2,
       PrefixLength = Num 8, AddressState = 4\<rparr>] IPv4
   = Inr \<lparr>NetRoute.ifIndex = 7, NextHop = ''10.0.0.1'', InterfaceMetric = 5,
       IPAddress = ''10.0.0.7'', InterfaceAlias = ''Wi-Fi'', AddressFamily = 2,
       PrefixLength = Num 8, AddressState = 4\<rparr>
   \<and> distinct (map InterfaceMetric (filter (\<lambda>i. AddressFamily i = WindowsAddressFamily IPv4 \<and> AddressState i = 4)
     [\<lparr>NetRoute.ifIndex = 12, NextHop = ''192.168.1.1'', InterfaceMetric = 10,
       IPAddress = ''192.168.1.20'', InterfaceAlias = ''Ethernet'', AddressFamily = 2,
       PrefixLength = Num 24, AddressState = 4\<rparr>,
      \<lparr>NetRoute.ifIndex = 7, NextHop = ''10.0.0.1'', InterfaceMetric = 5,
       IPAddress = ''10.0.0.7'', InterfaceAlias = ''Wi-Fi'', AddressFamily = 2,
       PrefixLength = Num 8, AddressState = 4\<rparr>]))
   \<and> windows_defaultInterfaceByAddressFamily
     [\<lparr>NetRoute.ifIndex = 7, NextHop = ''10.0.0.1'', InterfaceMetric = 5,
       IPAddress = ''10.0.0.7'', InterfaceAlias = ''Wi-Fi'', AddressFamily = 2,
       PrefixLength = Num 8, AddressState = 4\<rparr>,
      \<lparr>NetRoute.ifIndex = 12, NextHop = ''192.168.1.1'', InterfaceMetric = 10,
       IPAddress = ''192.168.1.20'', InterfaceAlias = ''Ethernet'', AddressFamily = 2,
       PrefixLength = Num 24, AddressState = 4\<rparr>] IPv4
   = Inr \<lparr>NetRoute.ifIndex = 7, NextHop = ''10.0.0.1'', InterfaceMetric = 5,
       IPAddress = ''10.0.0.7'', InterfaceAlias = ''Wi-Fi'', AddressFamily = 2,
       PrefixLength = Num 8, AddressState = 4\<rparr>"
  using selector_tie_break
    [of "[\<lparr>dst = ''default'', gateway = ''192.168.1.1'', dev = ''eth0'', protocol = None, metric = Some 10,
       ifname = ''eth0'', operstate = ''UP'', family = ''inet'', local = ''192.168.1.15'', prefixlen = Num 24\<rparr>,
      \<lparr>dst = ''default'', gateway = ''10.0.0.1'', dev = ''wlan0'', protocol = None, metric = Some 5,
       ifname = ''wlan0'', operstate = ''UP'', family = ''inet'', local = ''10.0.0.7'', prefixlen = Num 8\<rparr>]" IPv4
      "\<lparr>dst = ''default'', gateway = ''10.0.0.1'', dev = ''wlan0'', protocol = None, metric = Some 5,
       ifname = ''wlan0'', operstate = ''UP'', family = ''inet'', local = ''10.0.0.7'', prefixlen = Num 8\<rparr>"
      "[\<lparr>dst = ''default'', gateway = ''10.0.0.1'', dev = ''wlan0'', protocol = None, metric = Some 5,
       ifname = ''wlan0'', operstate = ''UP'', family = ''inet'', local = ''10.0.0.7'', prefixlen = Num 8\<rparr>,
      \<lparr>dst = ''default'', gateway = ''192.168.1.1'', dev = ''eth0'', protocol = None, metric = Some 10,
       ifname = ''eth0'', operstate = ''UP'', family = ''inet'', local = ''192.168.1.15'', prefixlen = Num 24\<rparr>]"
      "\<lparr>dst = ''default'', gateway = ''192.168.1.1'', dev = ''eth0'', protocol = None, metric = Some 10,
       ifname = ''eth0'', operstate = ''UP'', family = ''inet'', local = ''192.168.1.15'', prefixlen = Num 24\<rparr>"
      "\<lparr>dst = ''default'', gateway = ''10.0.0.1'', dev = ''wlan0'', protocol = None, metric = Some 5,
       ifname = ''wlan0'', operstate = ''UP'', family = ''inet'', local = ''10.0.0.7'', prefixlen = Num 8\<rparr>"
      "[\<lparr>NetRoute.ifIndex = 12, NextHop = ''192.168.1.1'', InterfaceMetric = 10,
       IPAddress = ''192.168.1.20'', InterfaceAlias = ''Ethernet'', AddressFamily = 2,
       PrefixLength = Num 24, AddressState = 4\<rparr>,
      \<lparr>NetRoute.ifIndex = 7, NextHop = ''10.0.0.1'', InterfaceMetric = 5,
       IPAddress = ''10.0.0.7'', InterfaceAlias = ''Wi-Fi'', AddressFamily = 2,
       PrefixLength = Num 8, AddressState = 4\<rparr>]"
      "\<lparr>NetRoute.ifIndex = 7, NextHop = ''10.0.0.1'', InterfaceMetric = 5,
       IPAddress = ''10.0.0.7'', InterfaceAlias = ''Wi-Fi'', AddressFamily = 2,
       PrefixLength = Num 8, AddressState = 4\<rparr>"
      "[\<lparr>NetRoute.ifIndex = 7, NextHop = ''10.0.0.1'', InterfaceMetric = 5,
       IPAddress = ''10.0.0.7'', InterfaceAlias = ''Wi-Fi'', AddressFamily = 2,
       PrefixLength = Num 8, AddressState = 4\<rparr>,
      \<lparr>NetRoute.ifIndex = 12, NextHop = ''192.168.1.1'', InterfaceMetric = 10,
       IPAddress = ''192.168.1.20'', InterfaceAlias = ''Ethernet'', AddressFamily = 2,
       PrefixLength = Num 24, AddressState = 4\<rparr>]"
      "\<lparr>NetRoute.ifIndex = 12, NextHop = ''192.168.1.1'', InterfaceMetric = 10,
       IPAddress = ''192.168.1.20'', InterfaceAlias = ''Ethernet'', AddressFamily = 2,
       PrefixLength = Num 24, AddressState = 4\<rparr>"
      "\<lparr>NetRoute.ifIndex = 7, NextHop = ''10.0.0.1'', InterfaceMetric = 5,
       IPAddress = ''10.0.0.7'', InterfaceAlias = ''Wi-Fi'', AddressFamily = 2,
       PrefixLength = Num 8, AddressState = 4\<rparr>"]
  by (simp add: linux_defaultInterfaceByAddressFamily_def LinuxOperstate_Up_def
        windows_defaultInterfaceByAddressFamily_def WindowsAddressState_Preferred_def)

section \<open>Linux end to end\<close>

text \<open>
  Claim C1. When the output of \<^verbatim>\<open>ip -4 -j route show default\<close> parses to the single route
  \<open>{dst: default, gateway: 192.168.1.1, dev: eth0, metric: 100}\<close> (with or without a protocol)
  and the output of \<^verbatim>\<open>ip -j addr show eth0\<close> parses to the single record
  \<open>{ifname: eth0, operstate: UP, addr_info: [{family: inet, local: 192.168.1.15, prefixlen: 24}]}\<close>,
  \<open>LinuxPlatform.defaultGateway(IPv4)\<close> returns exactly
  \<open>{ip: 192.168.1.15, gateway: 192.168.1.1, interface: eth0, prefixLength: 24}\<close>.
\<close>

theorem linux_end_to_end:
  assumes "spawner [''ip'', ''-4'', ''-j'', ''route'', ''show'', ''default''] None = Inr routeOutput"
    and "JSON_parse decodeRoutes routeOutput
         = Some [\<lparr>dst = ''default'', gateway = ''192.168.1.1'', dev = ''eth0'',
                  protocol = p, metric = Some 100\<rparr>]"
    and "spawner [''ip'', ''-j'', ''addr'', ''show'', ''eth0''] None = Inr addrOutput"
    and "JSON_parse decodeAddrs addrOutput
         = Some [\<lparr>IpAddr.ifname = ''eth0'', operstate = ''UP'',
                  addr_info = [\<lparr>IpAddrInfo.family = ''inet'', local = ''192.168.1.15'',
                                prefixlen = Num 24\<rparr>]\<rparr>]"
  shows "LinuxPlatform_defaultGateway spawner decodeRoutes decodeAddrs IPv4
         = Inr \<lparr>ip = ''192.168.1.15'', gateway = ''192.168.1.1'', interface = ''eth0'',
                prefixLength = Num 24\<rparr>"
proof -
  have routes: "linux_spawnCommandAndParse spawner decodeRoutes (ipDefaultRouteCommand IPv4)
      = Inr [\<lparr>dst = ''default'', gateway = ''192.168.1.1'', dev = ''eth0'',
                protocol = p, metric = Some 100\<rparr>]"
    using assms(1,2) by (simp add: linux_spawnCommandAndParse_def ipDefaultRouteCommand_def)
  have addrs: "linux_spawnCommandAndParse spawner decodeAddrs (ipInterfaceDetailsCommand ''eth0'')
      = Inr [\<lparr>IpAddr.ifname = ''eth0'', operstate = ''UP'',
                  addr_info = [\<lparr>IpAddrInfo.family = ''inet'', local = ''192.168.1.15'',
                                prefixlen = Num 24\<rparr>]\<rparr>]"
    using assms(3,4) by (simp add: linux_spawnCommandAndParse_def ipInterfaceDetailsCommand_def)
  show ?thesis
    unfolding LinuxPlatform_defaultGateway_def routes
    by (simp add: addrs mergeRoutesWithAddresseses_def linux_defaultInterfaceByAddressFamily_def
          LinuxOperstate_Up_def)
qed

theorem linux_end_to_end_witness:
  "LinuxPlatform_defaultGateway
     (scripted_spawner
        [(([''ip'', ''-4'', ''-j'', ''route'', ''show'', ''default''], None), route_json),
         (([''ip'', ''-j'', ''addr'', ''show'', ''eth0''], None), addr_json)])
     (scripted_decode
        [(route_json, [\<lparr>dst = ''default'', gateway = ''192.168.1.1'', dev = ''eth0'',
                         protocol = None, metric = Some 100\<rparr>])])
     (scripted_decode
        [(addr_json, [\<lparr>IpAddr.ifname = ''eth0'', operstate = ''UP'',
                         addr_info = [\<lparr>IpAddrInfo.family = ''inet'', local = ''192.168.1.15'',
                                       prefixlen = Num 24\<rparr>]\<rparr>])])
     IPv4
   = Inr \<lparr>ip = ''192.168.1.15'', gateway = ''192.168.1.1'', interface = ''eth0'',
          prefixLength = Num 24\<rparr>"
proof (rule linux_end_to_end [where routeOutput = route_json and addrOutput = addr_json and p = None])
  show "scripted_spawner
        [(([''ip'', ''-4'', ''-j'', ''route'', ''show'', ''default''], None), route_json),
         (([''ip'', ''-j'', ''addr'', ''show'', ''eth0''], None), addr_json)]
        [''ip'', ''-4'', ''-j'', ''route'', ''show'', ''default''] None = Inr route_json"
    by (simp add: scripted_spawner_def)
  show "scripted_spawner
        [(([''ip'', ''-4'', ''-j'', ''route'', ''show'', ''default''], None), route_json),
         (([''ip'', ''-j'', ''addr'', ''show'', ''eth0''], None), addr_json)]
        [''ip'', ''-j'', ''addr'', ''show'', ''eth0''] None = Inr addr_json"
    by (simp add: scripted_spawner_def)
  show "JSON_parse (scripted_decode
        [(route_json, [\<lparr>dst = ''default'', gateway = ''192.168.1.1'', dev = ''eth0'',
                         protocol = None, metric = Some 100\<rparr>])]) route_json
      = Some [\<lparr>dst = ''default'', gateway = ''192.168.1.1'', dev = ''eth0'',
                         protocol = None, metric = Some 100\<rparr>]"
    by (simp add: JSON_parse_def scripted_decode_def route_json_def)
  show "JSON_parse (scripted_decode
        [(addr_json, [\<lparr>IpAddr.ifname = ''eth0'', operstate = ''UP'',
                         addr_info = [\<lparr>IpAddrInfo.family = ''inet'', local = ''192.168.1.15'',
                                       prefixlen = Num 24\<rparr>]\<rparr>])]) addr_json
      = Some [\<lparr>IpAddr.ifname = ''eth0'', operstate = ''UP'',
                         addr_info = [\<lparr>IpAddrInfo.family = ''inet'', local = ''192.168.1.15'',
                                       prefixlen = Num 24\<rparr>]\<rparr>]"
    by (simp add: JSON_parse_def scripted_decode_def addr_json_def)
qed

section \<open>Empty output of the default-route command\<close>

lemma macos_empty_route_output:
  assumes "spawner (defaultRouteCommand af) None = Inr []"
  shows "MacOSPlatform_defaultGateway spawner toNumber af = Inl DefaultGatewayNotAvailableError"
  using assms by (simp add: MacOSPlatform_defaultGateway_def)

lemma windows_empty_route_output:
  assumes "spawner (netRouteCommand af) None = Inr []"
  shows "WindowsPlatform_defaultGateway spawner decodeRoutes decodeAddrs af
       = Inl DefaultGatewayNotAvailableError"
  using assms
  by (simp add: WindowsPlatform_defaultGateway_def windows_spawnCommandAndParse_def)

lemma linux_empty_route_output:
  assumes "spawner (ipDefaultRouteCommand af) None = Inr []"
  shows "LinuxPlatform_defaultGateway spawner decodeRoutes decodeAddrs af
       = Inl JSONParsingSpawnerOutputError"
  using assms
  by (simp add: LinuxPlatform_defaultGateway_def linux_spawnCommandAndParse_def JSON_parse_def)

lemma linux_empty_route_array:
  assumes "spawner (ipDefaultRouteCommand af) None = Inr routeOutput"
    and "JSON_parse decodeRoutes routeOutput = Some []"
  shows "LinuxPlatform_defaultGateway spawner decodeRoutes decodeAddrs af
       = Inl DefaultGatewayNotAvailableError"
  using assms
  by (simp add: LinuxPlatform_defaultGateway_def linux_spawnCommandAndParse_def)

text \<open>
  Claim C6, as stated, fails on Linux: when \<^verbatim>\<open>ip -4 -j route show default\<close> prints nothing,
  \<^verbatim>\<open>JSON.parse('')\<close> throws and the call fails with the JSON parsing error, not with
  "gateway not available".
\<close>

theorem linux_empty_output_counterexample:
  "LinuxPlatform_defaultGateway
     (scripted_spawner [(([''ip'', ''-4'', ''-j'', ''route'', ''show'', ''default''], None), '''')])
     (scripted_decode [(''[]'', [])])
     (scripted_decode [(''[]'', [])])
     IPv4
   = Inl JSONParsingSpawnerOutputError"
  by (simp add: LinuxPlatform_defaultGateway_def linux_spawnCommandAndParse_def JSON_parse_def
        scripted_spawner_def ipDefaultRouteCommand_def)

text \<open>
  Claim C6, amended. On macOS and on Windows, whenever the default-route command's output
  is the empty string the resolution call fails with "gateway not available". On Linux the
  empty string fails with the JSON parsing error, and the call fails with "gateway not
  available" whenever the output parses to the empty array.
\<close>

theorem empty_route_output_errors:
  "(spawner (defaultRouteCommand af) None = Inr '''' \<longrightarrow>
      MacOSPlatform_defaultGateway spawner toNumber af = Inl DefaultGatewayNotAvailableError)
   \<and> (spawner (netRouteCommand af) None = Inr '''' \<longrightarrow>
      WindowsPlatform_defaultGateway spawner winRoutes winAddrs af
      = Inl DefaultGatewayNotAvailableError)
   \<and> (spawner (ipDefaultRouteCommand af) None = Inr '''' \<longrightarrow>
      LinuxPlatform_defaultGateway spawner decodeRoutes decodeAddrs af
      = Inl JSONParsingSpawnerOutputError)
   \<and> (spawner (ipDefaultRouteCommand af) None = Inr routeOutput
      \<and> JSON_parse decodeRoutes routeOutput = Some [] \<longrightarrow>
      LinuxPlatform_defaultGateway spawner decodeRoutes decodeAddrs af
      = Inl DefaultGatewayNotAvailableError)"
  using macos_empty_route_output [of spawner af toNumber]
    windows_empty_route_output [of spawner af winRoutes winAddrs]
    linux_empty_route_output [of spawner af decodeRoutes decodeAddrs]
    linux_empty_route_array [of spawner af routeOutput decodeRoutes decodeAddrs]
  by blast

theorem empty_route_output_errors_witness:
  "MacOSPlatform_defaultGateway
     (scripted_spawner [(([''route'', ''-n'', ''get'', ''-inet6'', ''default''], None), '''')])
     decimal_toNumber IPv6
   = Inl DefaultGatewayNotAvailableError
   \<and> WindowsPlatform_defaultGateway
     (scripted_spawner [((netRouteCommand IPv4, None), '''')])
     (scripted_decode []) (scripted_decode []) IPv4
   = Inl DefaultGatewayNotAvailableError
   \<and> LinuxPlatform_defaultGateway
     (scripted_spawner [(([''ip'', ''-6'', ''-j'', ''route'', ''show'', ''default''], None), '''')])
     (scripted_decode [(''[]'', [])]) (scripted_decode [(''[]'', [])]) IPv6
   = Inl JSONParsingSpawnerOutputError
   \<and> LinuxPlatform_defaultGateway
     (scripted_spawner [(([''ip'', ''-6'', ''-j'', ''route'', ''show'', ''default''], None), ''[]'')])
     (scripted_decode [(''[]'', [])]) (scripted_decode [(''[]'', [])]) IPv6
   = Inl DefaultGatewayNotAvailableError"
proof -
  have m: "scripted_spawner [(([''route'', ''-n'', ''get'', ''-inet6'', ''default''], None), '''')]
             (defaultRouteCommand IPv6) None = Inr ''''"
    by (simp add: scripted_spawner_def defaultRouteCommand_def)
  have w: "scripted_spawner [((netRouteCommand IPv4, None), '''')] (netRouteCommand IPv4) None
             = Inr ''''"
    by (simp add: scripted_spawner_def)
  have l: "scripted_spawner [(([''ip'', ''-6'', ''-j'', ''route'', ''show'', ''default''], None), '''')]
             (ipDefaultRouteCommand IPv6) None = Inr ''''"
    by (simp add: scripted_spawner_def ipDefaultRouteCommand_def)
  have a: "scripted_spawner [(([''ip'', ''-6'', ''-j'', ''route'', ''show'', ''default''], None), ''[]'')]
             (ipDefaultRouteCommand IPv6) None = Inr ''[]''
           \<and> JSON_parse (scripted_decode [(''[]'', [])]) ''[]'' = Some []"
    by (simp add: scripted_spawner_def ipDefaultRouteCommand_def JSON_parse_def scripted_decode_def)
  show ?thesis
    using m w l a
      empty_route_output_errors
        [of "scripted_spawner [(([''route'', ''-n'', ''get'', ''-inet6'', ''default''], None), '''')]"
          IPv6 decimal_toNumber]
      empty_route_output_errors
        [of "scripted_spawner [((netRouteCommand IPv4, None), '''')]" IPv4 _
          "scripted_decode []" "scripted_decode []"]
      empty_route_output_errors
        [of "scripted_spawner [(([''ip'', ''-6'', ''-j'', ''route'', ''show'', ''default''], None), '''')]"
          IPv6 _ _ _ "scripted_decode [(''[]'', [])]" "scripted_decode [(''[]'', [])]"]
      empty_route_output_errors
        [of "scripted_spawner [(([''ip'', ''-6'', ''-j'', ''route'', ''show'', ''default''], None), ''[]'')]"
          IPv6 _ _ _ "scripted_decode [(''[]'', [])]" "scripted_decode [(''[]'', [])]" "''[]''"]
    by blast
qed

section \<open>netmaskToPrefixLength\<close>

lemma count_ones_binary_digits:
  "length (filter (\<lambda>bit. bit = ''1'') (split_chars (binary_digits n))) = popcount n"
proof (induction n rule: binary_digits.induct)
  case (1 n)
  show ?case
  proof (cases "n < 2")
    case True
    then have "n = 0 \<or> n = 1" by arith
    then show ?thesis
      by (auto simp add: binary_digits.simps [of n] popcount.simps [of n] popcount.simps [of 0]
            split_chars_def)
  next
    case False
    have "popcount n = n mod 2 + popcount (n div 2)"
      using False by (simp add: popcount.simps [of n])
    moreover have "binary_digits n
        = binary_digits (n div 2) @ [if even n then CHR ''0'' else CHR ''1'']"
      using False by (simp add: binary_digits.simps [of n])
    ultimately show ?thesis
      using 1 [OF False] by (auto simp add: split_chars_def odd_iff_mod_2_eq_one)
  qed
qed

lemma netmask_of_Num:
  assumes "parseInt16 s = Num i"
  shows "netmaskToPrefixLength s
       = (if 32 < popcount (nat \<bar>i\<bar>) then Inl PrefixLengthNotValidError
          else Inr (int (popcount (nat \<bar>i\<bar>))))"
proof -
  have neg: "filter (\<lambda>bit. bit = ''1'') (split_chars (CHR ''-'' # cs))
           = filter (\<lambda>bit. bit = ''1'') (split_chars cs)" for cs
    by (simp add: split_chars_def)
  have "length (filter (\<lambda>bit. bit = ''1'') (split_chars (number_toString2 (Num i))))
      = popcount (nat \<bar>i\<bar>)"
  proof (cases "i < 0")
    case True
    then have "nat (- i) = nat \<bar>i\<bar>" by simp
    with True show ?thesis by (simp add: neg count_ones_binary_digits)
  next
    case False
    then have "nat i = nat \<bar>i\<bar>" by simp
    with False show ?thesis by (simp add: count_ones_binary_digits)
  qed
  then show ?thesis using assms by (simp add: netmaskToPrefixLength_def)
qed

lemma netmask_of_not_Num:
  assumes "parseInt16 s = NaN \<or> parseInt16 s = PosInfinity \<or> parseInt16 s = NegInfinity"
  shows "netmaskToPrefixLength s = Inr 0"
  using assms by (auto simp add: netmaskToPrefixLength_def split_chars_def)

lemma netmask_error_iff:
  "netmaskToPrefixLength s = Inl e
   \<longleftrightarrow> e = PrefixLengthNotValidError \<and> (\<exists>i. parseInt16 s = Num i \<and> 32 < popcount (nat \<bar>i\<bar>))"
proof (cases "parseInt16 s")
  case (Num i)
  then show ?thesis using netmask_of_Num [OF Num] by auto
qed (simp_all add: netmask_of_not_Num)

lemma isHexDigit_chars:
  assumes "isHexDigit c"
  shows "\<not> is_space c" and "c \<noteq> CHR ''+''" and "c \<noteq> CHR ''-''" and "c \<noteq> CHR ''x''"
    and "c \<noteq> CHR ''X''"
  using assms
  by (auto simp add: isHexDigit_def hexDigitValue_def is_space_def Let_def split: if_splits)

lemma parseInt16_hex_digits:
  assumes ne: "s \<noteq> []" and hex: "\<forall>c\<in>set s. isHexDigit c"
  shows "parseInt16 s
       = (case NumberValue (hexValue s) of None \<Rightarrow> PosInfinity | Some v \<Rightarrow> Num (int v))"
proof -
  from ne obtain c cs where s: "s = c # cs" by (cases s) auto
  have c: "isHexDigit c" using hex s by simp
  note cf = isHexDigit_chars [OF c]
  have Z: "takeWhile isHexDigit (c # cs) = c # cs"
    using hex s by (simp add: takeWhile_eq_all_conv)
  show ?thesis
  proof (cases cs)
    case Nil
    show ?thesis
      unfolding s parseInt16_def Let_def using cf c Nil by (simp cong: option.case_cong)
  next
    case (Cons d ds)
    then have "isHexDigit d" using hex s by simp
    note df = isHexDigit_chars [OF this]
    have Z': "takeWhile isHexDigit (c # d # ds) = c # d # ds" using Z Cons by simp
    show ?thesis
      unfolding s Cons parseInt16_def Let_def using cf df Z' by (simp cong: option.case_cong)
  qed
qed

lemma bit_length_le:
  "n < 2 ^ k \<Longrightarrow> bit_length n \<le> k"
proof (induction k arbitrary: n)
  case 0
  then show ?case by (simp add: bit_length.simps [of 0])
next
  case (Suc k)
  show ?case
  proof (cases "n = 0")
    case True
    then show ?thesis by (simp add: bit_length.simps [of 0])
  next
    case False
    have "n div 2 < 2 ^ k" using Suc.prems by simp
    then have "bit_length (n div 2) \<le> k" by (rule Suc.IH)
    then show ?thesis using False by (simp add: bit_length.simps [of n])
  qed
qed

lemma NumberValue_exact:
  assumes "n < 2 ^ 53"
  shows "NumberValue n = Some n"
  using bit_length_le [OF assms] by (simp add: NumberValue_def)

lemma netmask_hex_digits_exact:
  assumes "s \<noteq> []" and "\<forall>c\<in>set s. isHexDigit c" and "hexValue s < 2 ^ 53"
  shows "netmaskToPrefixLength s
       = (if 32 < popcount (hexValue s) then Inl PrefixLengthNotValidError
          else Inr (int (popcount (hexValue s))))"
proof -
  have "parseInt16 s = Num (int (hexValue s))"
    using parseInt16_hex_digits [OF assms(1,2)] NumberValue_exact [OF assms(3)] by simp
  from netmask_of_Num [OF this] show ?thesis by simp
qed

lemma netmask_no_hex_digit:
  assumes "\<forall>c\<in>set s. \<not> isHexDigit c"
  shows "netmaskToPrefixLength s = Inr 0"
proof -
  have tw: "takeWhile isHexDigit t = []" if "set t \<subseteq> set s" for t
    using that assms by (cases t) auto
  have d: "set (dropWhile is_space s) \<subseteq> set s" by (rule set_dropWhileD [THEN subsetI])
  have "parseInt16 s = NaN"
    unfolding parseInt16_def Let_def
    apply (subst tw)
    subgoal
      using d set_drop_subset [of 1 "dropWhile is_space s"]
        set_drop_subset [of 2 "drop 1 (dropWhile is_space s)"]
        set_drop_subset [of 2 "dropWhile is_space s"]
      by (auto split: if_splits)
    subgoal by simp
    done
  then show ?thesis by (simp add: netmask_of_not_Num)
qed

lemma netmask_FFFFFF00: "netmaskToPrefixLength ''FFFFFF00'' = Inr 24"
proof -
  have "parseInt16 ''FFFFFF00'' = Num 4294967040"
    by (simp add: parseInt16_def is_space_def isHexDigit_def hexValue_def hexDigitValue_def
          NumberValue_def bit_length.simps)
  from netmask_of_Num [OF this] show ?thesis by (simp add: popcount.simps)
qed

lemma netmask_FFFFFFFF: "netmaskToPrefixLength ''FFFFFFFF'' = Inr 32"
proof -
  have "parseInt16 ''FFFFFFFF'' = Num 4294967295"
    by (simp add: parseInt16_def is_space_def isHexDigit_def hexValue_def hexDigitValue_def
          NumberValue_def bit_length.simps)
  from netmask_of_Num [OF this] show ?thesis by (simp add: popcount.simps)
qed

lemma netmask_F0F0F0F0: "netmaskToPrefixLength ''F0F0F0F0'' = Inr 16"
proof -
  have "parseInt16 ''F0F0F0F0'' = Num 4042322160"
    by (simp add: parseInt16_def is_space_def isHexDigit_def hexValue_def hexDigitValue_def
          NumberValue_def bit_length.simps)
  from netmask_of_Num [OF this] show ?thesis by (simp add: popcount.simps)
qed

text \<open>
  Claim C5, as stated, fails for long netmasks: the hexadecimal value of \<open>FFFFFFFFFFFFFF\<close>
  has 56 set bits, but \<^verbatim>\<open>parseInt\<close> rounds it to the double \<open>2 ^ 56\<close>, whose binary rendering
  has a single \<open>1\<close>, and the function returns 1.
\<close>

theorem netmask_56_bits_counterexample:
  "32 < popcount (hexValue ''FFFFFFFFFFFFFF'') \<and> netmaskToPrefixLength ''FFFFFFFFFFFFFF'' = Inr 1"
proof -
  have v: "hexValue ''FFFFFFFFFFFFFF'' = 72057594037927935"
    by (simp add: hexValue_def hexDigitValue_def)
  have "parseInt16 ''FFFFFFFFFFFFFF'' = Num 72057594037927936"
    by (simp add: parseInt16_def is_space_def isHexDigit_def hexValue_def hexDigitValue_def
          NumberValue_def bit_length.simps)
  from netmask_of_Num [OF this] have "netmaskToPrefixLength ''FFFFFFFFFFFFFF'' = Inr 1"
    by (simp add: popcount.simps)
  moreover have "32 < popcount (hexValue ''FFFFFFFFFFFFFF'')"
    unfolding v by (simp add: popcount.simps)
  ultimately show ?thesis by simp
qed

text \<open>
  Claim C5, amended. \<open>netmaskToPrefixLength("FFFFFF00") = 24\<close> and
  \<open>netmaskToPrefixLength("FFFFFFFF") = 32\<close>; for every netmask of hexadecimal digits whose
  value is below \<open>2 ^ 53\<close> (so that \<^verbatim>\<open>parseInt\<close> is exact) and has more than 32 set bits the
  function fails with "prefix length not valid"; and in general it fails with that error
  exactly when the number that \<^verbatim>\<open>parseInt(netmask, 16)\<close> returns is finite and has more than
  32 set bits.
\<close>

theorem netmaskToPrefixLength_values_and_error:
  "netmaskToPrefixLength ''FFFFFF00'' = Inr 24
   \<and> netmaskToPrefixLength ''FFFFFFFF'' = Inr 32
   \<and> (s \<noteq> [] \<and> (\<forall>c\<in>set s. isHexDigit c) \<and> hexValue s < 2 ^ 53 \<and> 32 < popcount (hexValue s)
      \<longrightarrow> netmaskToPrefixLength s = Inl PrefixLengthNotValidError)
   \<and> (netmaskToPrefixLength t = Inl PrefixLengthNotValidError
      \<longleftrightarrow> (\<exists>i. parseInt16 t = Num i \<and> 32 < popcount (nat \<bar>i\<bar>)))"
proof (intro conjI impI)
  show "netmaskToPrefixLength ''FFFFFF00'' = Inr 24" by (rule netmask_FFFFFF00)
  show "netmaskToPrefixLength ''FFFFFFFF'' = Inr 32" by (rule netmask_FFFFFFFF)
  show "netmaskToPrefixLength t = Inl PrefixLengthNotValidError
      \<longleftrightarrow> (\<exists>i. parseInt16 t = Num i \<and> 32 < popcount (nat \<bar>i\<bar>))"
    using netmask_error_iff [of t PrefixLengthNotValidError] by simp
next
  assume "s \<noteq> [] \<and> (\<forall>c\<in>set s. isHexDigit c) \<and> hexValue s < 2 ^ 53 \<and> 32 < popcount (hexValue s)"
  then show "netmaskToPrefixLength s = Inl PrefixLengthNotValidError"
    using netmask_hex_digits_exact [of s] by simp
qed

theorem netmaskToPrefixLength_values_and_error_witness:
  "hexValue ''1FFFFFFFF'' < 2 ^ 53 \<and> 32 < popcount (hexValue ''1FFFFFFFF'')
   \<and> netmaskToPrefixLength ''1FFFFFFFF'' = Inl PrefixLengthNotValidError"
proof -
  have v: "hexValue ''1FFFFFFFF'' = 8589934591"
    by (simp add: hexValue_def hexDigitValue_def)
  have h: "''1FFFFFFFF'' \<noteq> [] \<and> (\<forall>c\<in>set ''1FFFFFFFF''. isHexDigit c)
      \<and> hexValue ''1FFFFFFFF'' < 2 ^ 53 \<and> 32 < popcount (hexValue ''1FFFFFFFF'')"
    unfolding v by (simp add: isHexDigit_def hexDigitValue_def popcount.simps)
  with netmaskToPrefixLength_values_and_error [of "''1FFFFFFFF''"] show ?thesis by blast
qed

text \<open>
  Claim C10, as stated, fails for long hexadecimal strings: the value of \<open>20000000000001\<close>
  (\<open>2 ^ 53 + 1\<close>) has two set bits, but \<^verbatim>\<open>parseInt\<close> rounds it to \<open>2 ^ 53\<close> and the function
  returns 1.
\<close>

theorem netmask_rounded_bit_count_counterexample:
  "popcount (hexValue ''20000000000001'') = 2 \<and> netmaskToPrefixLength ''20000000000001'' = Inr 1"
proof -
  have v: "hexValue ''20000000000001'' = 9007199254740993"
    by (simp add: hexValue_def hexDigitValue_def)
  have "parseInt16 ''20000000000001'' = Num 9007199254740992"
    by (simp add: parseInt16_def is_space_def isHexDigit_def hexValue_def hexDigitValue_def
          NumberValue_def bit_length.simps)
  from netmask_of_Num [OF this] have "netmaskToPrefixLength ''20000000000001'' = Inr 1"
    by (simp add: popcount.simps)
  moreover have "popcount (hexValue ''20000000000001'') = 2"
    unfolding v by (simp add: popcount.simps)
  ultimately show ?thesis by simp
qed

text \<open>
  Claim C10, amended. \<open>netmaskToPrefixLength\<close> validates nothing but the bit count: for every
  string of hexadecimal digits whose value is below \<open>2 ^ 53\<close> and has at most 32 set bits it
  returns the number of set bits, contiguous or not (\<open>F0F0F0F0\<close> yields 16); for every string
  that \<^verbatim>\<open>parseInt\<close> turns into NaN, in particular every string without a hexadecimal digit,
  it returns 0; and the only error it raises is "prefix length not valid".
\<close>

theorem netmaskToPrefixLength_counts_bits_only:
  "(s \<noteq> [] \<and> (\<forall>c\<in>set s. isHexDigit c) \<and> hexValue s < 2 ^ 53 \<and> popcount (hexValue s) \<le> 32
      \<longrightarrow> netmaskToPrefixLength s = Inr (int (popcount (hexValue s))))
   \<and> netmaskToPrefixLength ''F0F0F0F0'' = Inr 16
   \<and> (parseInt16 t = NaN \<longrightarrow> netmaskToPrefixLength t = Inr 0)
   \<and> ((\<forall>c\<in>set u. \<not> isHexDigit c) \<longrightarrow> netmaskToPrefixLength u = Inr 0)
   \<and> (netmaskToPrefixLength v = Inl e \<longrightarrow> e = PrefixLengthNotValidError)"
proof (intro conjI impI)
  assume "s \<noteq> [] \<and> (\<forall>c\<in>set s. isHexDigit c) \<and> hexValue s < 2 ^ 53 \<and> popcount (hexValue s) \<le> 32"
  then show "netmaskToPrefixLength s = Inr (int (popcount (hexValue s)))"
    using netmask_hex_digits_exact [of s] by simp
next
  show "netmaskToPrefixLength ''F0F0F0F0'' = Inr 16" by (rule netmask_F0F0F0F0)
next
  assume "parseInt16 t = NaN"
  then show "netmaskToPrefixLength t = Inr 0" by (simp add: netmask_of_not_Num)
next
  assume "\<forall>c\<in>set u. \<not> isHexDigit c"
  then show "netmaskToPrefixLength u = Inr 0" by (rule netmask_no_hex_digit)
next
  assume "netmaskToPrefixLength v = Inl e"
  then show "e = PrefixLengthNotValidError" using netmask_error_iff [of v e] by simp
qed

theorem netmaskToPrefixLength_counts_bits_only_witness:
  "hexValue ''FF00FF'' < 2 ^ 53 \<and> popcount (hexValue ''FF00FF'') \<le> 32
   \<and> netmaskToPrefixLength ''FF00FF'' = Inr 16
   \<and> parseInt16 ''0x'' = NaN \<and> netmaskToPrefixLength ''0x'' = Inr 0
   \<and> netmaskToPrefixLength ''unknown'' = Inr 0
   \<and> netmaskToPrefixLength ''1FFFFFFFF'' = Inl PrefixLengthNotValidError"
proof -
  have v: "hexValue ''FF00FF'' = 16711935"
    by (simp add: hexValue_def hexDigitValue_def)
  have p: "popcount 16711935 = 16" by (simp add: popcount.simps)
  have h: "''FF00FF'' \<noteq> [] \<and> (\<forall>c\<in>set ''FF00FF''. isHexDigit c)
      \<and> hexValue ''FF00FF'' < 2 ^ 53 \<and> popcount (hexValue ''FF00FF'') \<le> 32"
    unfolding v p by (simp add: isHexDigit_def hexDigitValue_def)
  have n: "parseInt16 ''0x'' = NaN"
    by (simp add: parseInt16_def is_space_def)
  have u: "\<forall>c\<in>set ''unknown''. \<not> isHexDigit c"
    by (simp add: isHexDigit_def hexDigitValue_def)
  have "parseInt16 ''1FFFFFFFF'' = Num 8589934591"
    by (simp add: parseInt16_def is_space_def isHexDigit_def hexValue_def hexDigitValue_def
          NumberValue_def bit_length.simps)
  from netmask_of_Num [OF this]
  have e: "netmaskToPrefixLength ''1FFFFFFFF'' = Inl PrefixLengthNotValidError"
    by (simp add: popcount.simps)
  show ?thesis
    using h n u e v p
      netmaskToPrefixLength_counts_bits_only
        [of "''FF00FF''" "''0x''" "''unknown''" "''1FFFFFFFF''" PrefixLengthNotValidError]
    by simp
qed

section \<open>valueFromKey\<close>

lemma indexOf_absent:
  "key \<notin> set parts \<Longrightarrow> indexOf parts key = - 1"
  by (induction parts) (auto simp add: Let_def)

lemma valueFromKey_absent:
  assumes "key \<notin> set (split_ws input)"
  shows "valueFromKey input key = None"
  using indexOf_absent [OF assms] by (simp add: valueFromKey_def)

lemma split_ws_ifconfig_line:
  "split_ws ''   inet 192.168.1.15 netmask 0xffffff00 broadcast 192.168.1.255''
   = ['''', ''inet'', ''192.168.1.15'', ''netmask'', ''0xffffff00'', ''broadcast'',
      ''192.168.1.255'']"
  by (simp add: split_ws.simps is_space_def)

text \<open>
  Claim C7. On the line \<open>"   inet 192.168.1.15 netmask 0xffffff00 broadcast 192.168.1.255"\<close>
  the key \<open>inet\<close> yields \<open>192.168.1.15\<close> and the key \<open>netmask\<close> yields \<open>0xffffff00\<close>; for every
  input whose white-space separated pieces do not contain the key the extraction yields no
  value. The function has no failing branch: it returns a value or null on every input.
\<close>

theorem valueFromKey_extraction:
  "valueFromKey ''   inet 192.168.1.15 netmask 0xffffff00 broadcast 192.168.1.255'' ''inet''
     = Some ''192.168.1.15''
   \<and> valueFromKey ''   inet 192.168.1.15 netmask 0xffffff00 broadcast 192.168.1.255'' ''netmask''
     = Some ''0xffffff00''
   \<and> (key \<notin> set (split_ws input) \<longrightarrow> valueFromKey input key = None)"
proof (intro conjI impI)
  show "valueFromKey ''   inet 192.168.1.15 netmask 0xffffff00 broadcast 192.168.1.255'' ''inet''
     = Some ''192.168.1.15''"
    by (simp add: valueFromKey_def split_ws_ifconfig_line)
  show "valueFromKey ''   inet 192.168.1.15 netmask 0xffffff00 broadcast 192.168.1.255'' ''netmask''
     = Some ''0xffffff00''"
    by (simp add: valueFromKey_def split_ws_ifconfig_line)
next
  assume "key \<notin> set (split_ws input)"
  then show "valueFromKey input key = None" by (rule valueFromKey_absent)
qed

theorem valueFromKey_extraction_witness:
  "''prefixlen'' \<notin> set (split_ws ''   inet 192.168.1.15 netmask 0xffffff00 broadcast 192.168.1.255'')
   \<and> valueFromKey ''   inet 192.168.1.15 netmask 0xffffff00 broadcast 192.168.1.255'' ''prefixlen''
     = None"
proof -
  have "''prefixlen'' \<notin> set (split_ws ''   inet 192.168.1.15 netmask 0xffffff00 broadcast 192.168.1.255'')"
    by (simp add: split_ws_ifconfig_line)
  with valueFromKey_extraction
    [of "''prefixlen''" "''   inet 192.168.1.15 netmask 0xffffff00 broadcast 192.168.1.255''"]
  show ?thesis by blast
qed

section \<open>The returned prefix length\<close>



lemma split_ws_inet6_row:
  "split_ws ''inet6 fe80::1c2d%en0 prefixlen 64 scopeid 0x4''
   = [''inet6'', ''fe80::1c2d%en0'', ''prefixlen'', ''64'', ''scopeid'', ''0x4'']"
  by (simp add: split_ws.simps is_space_def)









lemma macos_script_IPv6:
  "MacOSPlatform_defaultGateway (scripted_spawner macos_script) decimal_toNumber IPv6
   = Inr \<lparr>ip = ''fe80::1c2d%en0'', gateway = ''fe80::1%en0'', interface = ''en0'',
          prefixLength = Num 64\<rparr>"
  by (simp add: MacOSPlatform_defaultGateway_def prefixLengthAndIpByAddressFamily_def
        valueFromRowKey_def valueFromKey_def defaultRouteCommand_def interfaceDetailsCommand_def
        grepCommand_def scripted_spawner_def macos_script_def macos_route_output_def
        macos_route6_output_def macos_ifconfig_output_def DarwinInterfaceStatus_Active_def
        split_ws_inet6_row decimal_toNumber_def)










end
